theory Spec2Isabelle
  imports Complex_Main "HOL-Library.Word" "HOL-Library.Signed_Division"
begin

section \<open>Go's numeric types\<close>

subsection \<open>float64\<close>

text \<open>
  A \<open>float64\<close> is an IEEE 754 binary64 value: a signed finite number (the flag is the sign
  bit, \<open>True\<close> for negative, so that \<open>Finite True 0\<close> is \<open>-0\<close>; the rational is the
  magnitude), a signed infinity or NaN. Arithmetic on finite operands computes the exact
  rational result and rounds it to the nearest representable value, ties to even, as the
  hardware does in Go's only rounding mode.
\<close>

datatype float64 = Finite bool rat | Infinity bool | NaN

function bitlen :: "int \<Rightarrow> int" where
  "bitlen n = (if n \<le> 0 then 0 else 1 + bitlen (n div 2))"
  by pat_completeness auto
termination
  by (relation "measure nat") auto

declare bitlen.simps [simp del]

definition ilog2 :: "rat \<Rightarrow> int" where
  \<comment> \<open>\<open>\<lfloor>log\<^sub>2 a\<rfloor>\<close> of a positive rational\<close>
  "ilog2 a = (if 1 \<le> a then bitlen \<lfloor>a\<rfloor> - 1 else - bitlen (\<lceil>1 / a\<rceil> - 1))"

definition rne :: "rat \<Rightarrow> int" where
  \<comment> \<open>round to the nearest integer, ties to even\<close>
  "rne x = (let f = \<lfloor>x\<rfloor>; r = x - of_int f in
     if r < 1 / 2 then f else if 1 / 2 < r then f + 1 else if even f then f else f + 1)"

definition round64 :: "bool \<Rightarrow> rat \<Rightarrow> float64" where
  \<comment> \<open>the binary64 value nearest to the magnitude \<open>a \<ge> 0\<close>, with sign \<open>s\<close>: 53 significant
      bits \<open>m\<close>, exponent \<open>e\<close> of the last place at least \<open>-1074\<close>, and infinity when
      \<open>m * 2 ^ e\<close> reaches \<open>2 ^ 1024\<close>\<close>
  "round64 s a = (if a = 0 then Finite s 0 else
     (let e = max (ilog2 a - 52) (- 1074);
          m = rne (a / 2 powi e)
      in if 1024 < bitlen m + e then Infinity s else Finite s (of_int m * 2 powi e)))"

definition signed :: "bool \<Rightarrow> rat \<Rightarrow> rat" where
  "signed s a = (if s then - a else a)"

fun fsub :: "float64 \<Rightarrow> float64 \<Rightarrow> float64" where
  "fsub NaN y = NaN"
| "fsub x NaN = NaN"
| "fsub (Infinity s) (Infinity t) = (if s = t then NaN else Infinity s)"
| "fsub (Infinity s) (Finite t b) = Infinity s"
| "fsub (Finite s a) (Infinity t) = Infinity (\<not> t)"
| "fsub (Finite s a) (Finite t b) =
     (let x = signed s a - signed t b in
      if x = 0 then Finite (s \<and> \<not> t) 0 else round64 (x < 0) \<bar>x\<bar>)"

fun fmul :: "float64 \<Rightarrow> float64 \<Rightarrow> float64" where
  "fmul NaN y = NaN"
| "fmul x NaN = NaN"
| "fmul (Infinity s) (Infinity t) = Infinity (s \<noteq> t)"
| "fmul (Infinity s) (Finite t b) = (if b = 0 then NaN else Infinity (s \<noteq> t))"
| "fmul (Finite s a) (Infinity t) = (if a = 0 then NaN else Infinity (s \<noteq> t))"
| "fmul (Finite s a) (Finite t b) = round64 (s \<noteq> t) (a * b)"

fun fdiv :: "float64 \<Rightarrow> float64 \<Rightarrow> float64" where
  "fdiv NaN y = NaN"
| "fdiv x NaN = NaN"
| "fdiv (Infinity s) (Infinity t) = NaN"
| "fdiv (Infinity s) (Finite t b) = Infinity (s \<noteq> t)"
| "fdiv (Finite s a) (Infinity t) = Finite (s \<noteq> t) 0"
| "fdiv (Finite s a) (Finite t b) =
     (if b = 0 then (if a = 0 then NaN else Infinity (s \<noteq> t))
      else round64 (s \<noteq> t) (a / b))"

fun is_finite :: "float64 \<Rightarrow> bool" where
  "is_finite (Finite s a) = True"
| "is_finite x = False"

definition float64_const :: "rat \<Rightarrow> float64" where
  \<comment> \<open>an untyped constant of the source, converted to float64 where it is used\<close>
  "float64_const q = round64 (q < 0) \<bar>q\<bar>"

subsection \<open>int64\<close>

type_synonym int64 = "64 word"

definition float64_of_int64 :: "int64 \<Rightarrow> float64" where
  \<comment> \<open>the conversion \<open>float64(x)\<close>\<close>
  "float64_of_int64 x = round64 (sint x < 0) (of_int \<bar>sint x\<bar>)"

fun int64_of_float64 :: "float64 \<Rightarrow> int64" where
  \<comment> \<open>the conversion \<open>int64(f)\<close>: the fraction is discarded. Go leaves the result
      implementation-dependent when the value does not fit; amd64 yields the least int64.\<close>
  "int64_of_float64 (Finite s a) =
     (let i = (if s then - \<lfloor>a\<rfloor> else \<lfloor>a\<rfloor>) in
      if - (2 ^ 63) \<le> i \<and> i < 2 ^ 63 then word_of_int i else word_of_int (- (2 ^ 63)))"
| "int64_of_float64 x = word_of_int (- (2 ^ 63))"

definition div64 :: "int64 \<Rightarrow> int64 \<Rightarrow> int64" where
  \<comment> \<open>\<open>x / y\<close> on int64 for \<open>y \<noteq> 0\<close>: the quotient truncated towards zero, wrapped\<close>
  "div64 x y = word_of_int (sint x sdiv sint y)"

subsection \<open>Times and durations\<close>

text \<open>
  A \<open>time.Time\<close> is a reading, in nanoseconds since the Unix epoch, of the one clock of
  the process; a \<open>time.Duration\<close> is an int64 count of nanoseconds. \<open>t.Sub(u)\<close> is the
  difference, saturated at the ends of int64.
\<close>

type_synonym Time = int
type_synonym Duration = int64

definition Sub :: "Time \<Rightarrow> Time \<Rightarrow> Duration" where
  "Sub t u = word_of_int (max (- (2 ^ 63)) (min (2 ^ 63 - 1) (t - u)))"

definition Second :: int where
  "Second = 1000000000"

definition Minute :: int where
  "Minute = 60 * Second"

definition Unix :: "Time \<Rightarrow> int" where
  "Unix t = t div Second"

function digits :: "int \<Rightarrow> string" where
  "digits n = (if n < 10 then [''0123456789'' ! nat n]
               else digits (n div 10) @ [''0123456789'' ! nat (n mod 10)])"
  by pat_completeness auto
termination
  by (relation "measure nat") auto

declare digits.simps [simp del]

definition decimal :: "int \<Rightarrow> string" where
  \<comment> \<open>the verb \<open>%d\<close>\<close>
  "decimal i = (if i < 0 then CHR ''-'' # digits (- i) else digits i)"

section \<open>Types (pkg/types/migration.go)\<close>

record MigrationRequest =
  PodName :: string
  PodNamespace :: string
  SourceNode :: string
  TargetNode :: string
  PreservePV :: bool
  ForceRestart :: bool
  Timeout :: int64

datatype MigrationStatus =
    MigrationStatusPending
  | MigrationStatusRunning
  | MigrationStatusCompleted
  | MigrationStatusFailed
  | MigrationStatusCancelled

record ResourceUsage =
  CPUUsage :: float64
  MemoryUsage :: int64
  Timestamp :: Time

record ContainerState =
  Name :: string
  State :: string
  RestartCount :: "32 word"
  ShouldMigrate :: bool

text \<open>Pointer fields are options: \<open>None\<close> is \<open>nil\<close>.\<close>

record MigrationDetails =
  StartTime :: Time
  EndTime :: "Time option"
  Duration :: "Duration option"
  OriginalResources :: "ResourceUsage option"
  OptimizedResources :: "ResourceUsage option"
  ContainerStates :: "ContainerState list"
  CheckpointPath :: string
  PVClaimName :: string
  NewPodName :: string

record MigrationResponse =
  MigrationID :: string
  Status :: MigrationStatus
  Message :: string
  Details :: MigrationDetails

record MigrationMetrics =
  TotalMigrations :: int64
  SuccessfulMigrations :: int64
  FailedMigrations :: int64
  AverageDuration :: Duration
  CPUSavings :: float64
  MemorySavings :: float64

section \<open>The cluster client\<close>

text \<open>
  Modelled from the spec: the client \<open>pkg/k8s\<close> is not part of the sources at hand. A
  pod is known by its name and namespace, the two fields the controller reads. Each
  operation of section 6 of the specification is a function of the time of the request
  and of its arguments, and answers with the time it takes and either an error message
  or a value; nothing else is assumed of the cluster.
\<close>

record Pod =
  Name :: string
  Namespace :: string

type_synonym 'a reply = "nat \<times> (string + 'a)"

record Client =
  GetPod :: "Time \<Rightarrow> string \<Rightarrow> string \<Rightarrow> Pod reply"
  GetPodContainerStates :: "Time \<Rightarrow> Pod \<Rightarrow> ContainerState list reply"
  GetPodMetrics :: "Time \<Rightarrow> string \<Rightarrow> string \<Rightarrow> ResourceUsage reply"
  CreatePersistentVolumeClaim :: "Time \<Rightarrow> string \<Rightarrow> string \<Rightarrow> string \<Rightarrow> unit reply"
  CreateOptimizedPod ::
    "Time \<Rightarrow> Pod \<Rightarrow> string \<Rightarrow> ContainerState list \<Rightarrow> string \<Rightarrow> Pod reply"
  WaitForPodReady :: "Time \<Rightarrow> string \<Rightarrow> string \<Rightarrow> int \<Rightarrow> unit reply"
  DeletePod :: "Time \<Rightarrow> string \<Rightarrow> string \<Rightarrow> unit reply"

section \<open>The controller (pkg/controller/migration.go)\<close>

text \<open>
  The field \<open>ctx\<close> of a job is the deadline of its context; the only use of \<open>cancel\<close>
  is the deferred release at the end of the goroutine.
\<close>

record MigrationJob =
  ID :: string
  Request :: MigrationRequest
  Status :: MigrationStatus
  Details :: MigrationDetails
  StartTime :: Time
  ctx :: Time

text \<open>
  What a goroutine running \<open>executeMigration\<close> does is observed as a sequence of events:
  the calls it makes to the client (with the time the call returns and whether it
  returned without error), the time it sleeps, and its writes under the mutex to the
  status of the job and to the end time and duration.
\<close>

datatype call =
    CallGetPod
  | CallGetPodContainerStates
  | CallGetPodMetrics
  | CallCreatePersistentVolumeClaim
  | CallCreateOptimizedPod
  | CallWaitForPodReady
  | CallDeletePod

datatype event =
    Invoke call Time bool
  | Sleep int
  | WriteStatus MigrationStatus
  | WriteEnd Time Duration

text \<open>
  The memory a goroutine of the pipeline works on: the job its pointer refers to, the
  metrics of the controller, the clock, and the events so far.
\<close>

record state =
  job :: MigrationJob
  metrics :: MigrationMetrics
  checkpointSize :: string
  clock :: Time
  trace :: "event list"

definition details :: "state \<Rightarrow> MigrationDetails" where
  "details s = Details (job s)"

definition set_details :: "(MigrationDetails \<Rightarrow> MigrationDetails) \<Rightarrow> state \<Rightarrow> state" where
  "set_details f s = s\<lparr>job := (job s)\<lparr>Details := f (Details (job s))\<rparr>\<rparr>"

definition is_ok :: "string + 'a \<Rightarrow> bool" where
  "is_ok r = (case r of Inl err \<Rightarrow> False | Inr v \<Rightarrow> True)"

text \<open>
  Modelled from the spec: a call to the client under the context of the job. A call whose
  answer has not arrived when the deadline passes is abandoned and returns the
  context's error at the deadline; a call made after the deadline returns it at once.
\<close>

definition invoke :: "call \<Rightarrow> 'a reply \<Rightarrow> state \<Rightarrow> (string + 'a) \<times> state" where
  "invoke c r s =
     (if ctx (job s) \<le> clock s + int (fst r)
      then (let t = max (clock s) (ctx (job s)) in
            (Inl ''context deadline exceeded'',
             s\<lparr>clock := t, trace := trace s @ [Invoke c t False]\<rparr>))
      else (let t = clock s + int (fst r) in
            (snd r, s\<lparr>clock := t, trace := trace s @ [Invoke c t (is_ok (snd r))]\<rparr>)))"

definition updateJobStatus :: "MigrationStatus \<Rightarrow> state \<Rightarrow> state" where
  "updateJobStatus status s =
     s\<lparr>job := (job s)\<lparr>Status := status\<rparr>, trace := trace s @ [WriteStatus status]\<rparr>"

text \<open>Step 1. The loop that counts the containers to migrate only feeds the log.\<close>

definition captureContainerStates :: "Client \<Rightarrow> state \<Rightarrow> (string + unit) \<times> state" where
  "captureContainerStates k s =
     (let req = Request (job s) in
      case invoke CallGetPod (GetPod k (clock s) (PodNamespace req) (PodName req)) s of
        (Inl err, s1) \<Rightarrow> (Inl (''failed to get pod: '' @ err), s1)
      | (Inr pod, s1) \<Rightarrow>
          (case invoke CallGetPodContainerStates (GetPodContainerStates k (clock s1) pod) s1 of
             (Inl err, s2) \<Rightarrow> (Inl (''failed to analyze container states: '' @ err), s2)
           | (Inr containerStates, s2) \<Rightarrow>
               (let s3 = set_details (\<lambda>d. d\<lparr>ContainerStates := containerStates\<rparr>) s2 in
                case invoke CallGetPodMetrics
                       (GetPodMetrics k (clock s3) (PodNamespace req) (PodName req)) s3 of
                  (r, s4) \<Rightarrow>
                    (let sample =
                       (case r of
                          Inl err \<Rightarrow>
                            \<lparr>CPUUsage = float64_const 0, MemoryUsage = 0, Timestamp = clock s4\<rparr>
                        | Inr m \<Rightarrow> m)
                     in (Inr (), set_details (\<lambda>d. d\<lparr>OriginalResources := Some sample\<rparr>) s4)))))"

text \<open>Step 2.\<close>

definition createCheckpoint :: "Client \<Rightarrow> state \<Rightarrow> (string + string) \<times> state" where
  "createCheckpoint k s =
     (let req = Request (job s);
          checkpointName = ''checkpoint-'' @ PodName req @ ''-'' @ decimal (Unix (clock s)) in
      case invoke CallCreatePersistentVolumeClaim
             (CreatePersistentVolumeClaim k (clock s) (PodNamespace req) checkpointName
                (checkpointSize s)) s of
        (Inl err, s1) \<Rightarrow> (Inl (''failed to create checkpoint PVC: '' @ err), s1)
      | (Inr u, s1) \<Rightarrow> (Inr checkpointName, s1))"

text \<open>Step 3.\<close>

definition createOptimizedPod :: "Client \<Rightarrow> string \<Rightarrow> state \<Rightarrow> (string + unit) \<times> state" where
  "createOptimizedPod k checkpointPVC s =
     (let req = Request (job s) in
      case invoke CallGetPod (GetPod k (clock s) (PodNamespace req) (PodName req)) s of
        (Inl err, s1) \<Rightarrow> (Inl (''failed to get original pod: '' @ err), s1)
      | (Inr originalPod, s1) \<Rightarrow>
          (case invoke CallCreateOptimizedPod
                  (CreateOptimizedPod k (clock s1) originalPod (TargetNode req)
                     (ContainerStates (details s1)) checkpointPVC) s1 of
             (Inl err, s2) \<Rightarrow> (Inl (''failed to create optimized pod: '' @ err), s2)
           | (Inr newPod, s2) \<Rightarrow>
               (case invoke CallWaitForPodReady
                       (WaitForPodReady k (clock s2) (Namespace newPod) (Name newPod)
                          (5 * Minute)) s2 of
                  (Inl err, s3) \<Rightarrow> (Inl (''new pod failed to become ready: '' @ err), s3)
                | (Inr u, s3) \<Rightarrow>
                    (Inr (), set_details (\<lambda>d. d\<lparr>NewPodName := Name newPod\<rparr>) s3))))"

text \<open>Step 4.\<close>

definition deleteOriginalPod :: "Client \<Rightarrow> state \<Rightarrow> (string + unit) \<times> state" where
  "deleteOriginalPod k s =
     (let req = Request (job s) in
      case invoke CallDeletePod (DeletePod k (clock s) (PodNamespace req) (PodName req)) s of
        (Inl err, s1) \<Rightarrow> (Inl (''failed to delete original pod: '' @ err), s1)
      | (Inr u, s1) \<Rightarrow> (Inr (), s1))"

text \<open>Step 5. \<open>time.Sleep\<close> takes no context: it lasts thirty seconds whatever the deadline.\<close>

definition simulated :: "ResourceUsage \<Rightarrow> Time \<Rightarrow> ResourceUsage" where
  \<comment> \<open>the composite literal of both fallback branches\<close>
  "simulated orig t =
     \<lparr>CPUUsage = fmul (CPUUsage orig) (float64_const (1 / 2)),
      MemoryUsage =
        int64_of_float64 (fmul (float64_of_int64 (MemoryUsage orig)) (float64_const (3 / 5))),
      Timestamp = t\<rparr>"

definition fallback :: "state \<Rightarrow> state" where
  "fallback s =
     (case OriginalResources (details s) of
        None \<Rightarrow> s
      | Some orig \<Rightarrow>
          set_details (\<lambda>d. d\<lparr>OptimizedResources := Some (simulated orig (clock s))\<rparr>) s)"

definition collectPostMigrationMetrics :: "Client \<Rightarrow> state \<Rightarrow> (string + unit) \<times> state" where
  "collectPostMigrationMetrics k s =
     (let s1 = s\<lparr>clock := clock s + 30 * Second, trace := trace s @ [Sleep (30 * Second)]\<rparr> in
      if NewPodName (details s1) \<noteq> ''''
      then (case invoke CallGetPodMetrics
                   (GetPodMetrics k (clock s1) (PodNamespace (Request (job s1)))
                      (NewPodName (details s1))) s1 of
              (Inl err, s2) \<Rightarrow> (Inr (), fallback s2)
            | (Inr sample, s2) \<Rightarrow>
                (Inr (), set_details (\<lambda>d. d\<lparr>OptimizedResources := Some sample\<rparr>) s2))
      else (Inr (), fallback s1))"

text \<open>The two terminal transitions, each one critical section.\<close>

definition failMigration :: "string \<Rightarrow> state \<Rightarrow> state" where
  "failMigration message s =
     (let endTime = clock s;
          duration = Sub endTime (StartTime (job s)) in
      s\<lparr>job := (job s)
           \<lparr>Status := MigrationStatusFailed,
            Details := (Details (job s))\<lparr>EndTime := Some endTime, Duration := Some duration\<rparr>\<rparr>,
        metrics := (metrics s)\<lparr>FailedMigrations := FailedMigrations (metrics s) + 1\<rparr>,
        trace := trace s @ [WriteStatus MigrationStatusFailed, WriteEnd endTime duration]\<rparr>)"

definition savings :: "ResourceUsage \<Rightarrow> ResourceUsage \<Rightarrow> float64 \<times> float64" where
  \<comment> \<open>\<open>cpuSavings\<close> and \<open>memorySavings\<close>\<close>
  "savings orig opt =
     (fmul (fdiv (fsub (CPUUsage orig) (CPUUsage opt)) (CPUUsage orig)) (float64_const 100),
      fmul (fdiv (float64_of_int64 (MemoryUsage orig - MemoryUsage opt))
                 (float64_of_int64 (MemoryUsage orig))) (float64_const 100))"

definition completeMigration :: "state \<Rightarrow> state" where
  "completeMigration s =
     (let endTime = clock s;
          duration = Sub endTime (StartTime (job s));
          j = (job s)
            \<lparr>Status := MigrationStatusCompleted,
             Details := (Details (job s))\<lparr>EndTime := Some endTime, Duration := Some duration\<rparr>\<rparr>;
          m1 = (metrics s)
            \<lparr>TotalMigrations := TotalMigrations (metrics s) + 1,
             SuccessfulMigrations := SuccessfulMigrations (metrics s) + 1\<rparr>;
          m2 = (if 0 <s TotalMigrations m1
                then m1\<lparr>AverageDuration :=
                       div64 (AverageDuration m1 * (TotalMigrations m1 - 1) + duration)
                         (TotalMigrations m1)\<rparr>
                else m1);
          m3 = (case (OriginalResources (Details j), OptimizedResources (Details j)) of
                  (Some orig, Some opt) \<Rightarrow>
                    m2\<lparr>CPUSavings := fst (savings orig opt),
                       MemorySavings := snd (savings orig opt)\<rparr>
                | _ \<Rightarrow> m2)
      in s\<lparr>job := j, metrics := m3,
           trace := trace s @ [WriteStatus MigrationStatusCompleted, WriteEnd endTime duration]\<rparr>)"

text \<open>The pipeline, with its early returns.\<close>

definition executeMigration :: "Client \<Rightarrow> state \<Rightarrow> state" where
  "executeMigration k s0 =
     (let s1 = updateJobStatus MigrationStatusRunning s0 in
      case captureContainerStates k s1 of
        (Inl err, s2) \<Rightarrow> failMigration (''Failed to capture container states: '' @ err) s2
      | (Inr u, s2) \<Rightarrow>
          (case (if PreservePV (Request (job s2))
                 then (case createCheckpoint k s2 of
                         (Inl err, s3) \<Rightarrow> (Inl err, s3)
                       | (Inr checkpointPVC, s3) \<Rightarrow>
                           (Inr checkpointPVC,
                            set_details (\<lambda>d. d\<lparr>CheckpointPath := checkpointPVC,
                                              PVClaimName := checkpointPVC\<rparr>) s3))
                 else (Inr '''', s2)) of
             (Inl err, s3) \<Rightarrow> failMigration (''Failed to create checkpoint: '' @ err) s3
           | (Inr checkpointPVC, s3) \<Rightarrow>
               (case createOptimizedPod k checkpointPVC s3 of
                  (Inl err, s4) \<Rightarrow> failMigration (''Failed to create optimized pod: '' @ err) s4
                | (Inr u, s4) \<Rightarrow>
                    (case deleteOriginalPod k s4 of
                       (warning4, s5) \<Rightarrow>
                         (case collectPostMigrationMetrics k s5 of
                            (warning5, s6) \<Rightarrow> completeMigration s6)))))"

section \<open>The controller as a whole\<close>

text \<open>
  The map \<open>migrations\<close> holds pointers: \<open>objects\<close> is the memory the pointers refer to
  and \<open>allocated\<close> the number of jobs created so far. Every job has the goroutine that
  \<open>go mc.executeMigration(job)\<close> starts: \<open>goroutines\<close> says where in \<open>executeMigration\<close>
  it stands and what the clock showed when it got there, and \<open>events\<close> holds its events so
  far. \<open>now\<close> is the clock as the requests read it.
\<close>

datatype point =
    Dispatch
  | Capture
  | Checkpoint
  | Create string
  | Delete
  | Collect
  | Complete
  | Fail string
  | Done

record MigrationController =
  migrations :: "string \<rightharpoonup> nat"
  mc_metrics :: MigrationMetrics
  mc_checkpointSize :: string
  objects :: "nat \<rightharpoonup> MigrationJob"
  allocated :: nat
  goroutines :: "nat \<rightharpoonup> point \<times> Time"
  now :: Time
  events :: "nat \<Rightarrow> event list"

definition NewMigrationController :: "Time \<Rightarrow> MigrationController" where
  "NewMigrationController t =
     \<lparr>migrations = Map.empty,
      mc_metrics = \<lparr>TotalMigrations = 0, SuccessfulMigrations = 0, FailedMigrations = 0,
                    AverageDuration = 0, CPUSavings = float64_const 0,
                    MemorySavings = float64_const 0\<rparr>,
      mc_checkpointSize = ''1Gi'',
      objects = Map.empty, allocated = 0, goroutines = Map.empty, now = t,
      events = (\<lambda>p. [])\<rparr>"

text \<open>
  \<open>StartMigration\<close> reads the clock three times: for the context, for \<open>job.StartTime\<close>
  and for \<open>Details.StartTime\<close>; \<open>d1\<close> and \<open>d2\<close> are the times that pass between the
  readings. \<open>uuid\<close> is the string of the random UUID. The result is the response with the
  error (always \<open>nil\<close>), the pointer of the job handed to the new goroutine, and the
  controller.
\<close>

definition StartMigration ::
  "MigrationRequest \<Rightarrow> string \<Rightarrow> nat \<Rightarrow> nat \<Rightarrow> MigrationController \<Rightarrow>
     (string + MigrationResponse) \<times> nat \<times> MigrationController" where
  "StartMigration req uuid d1 d2 mc =
     (let migrationID = ''migration-'' @ take 8 uuid;
          t0 = now mc;
          deadline = (if Timeout req = 0 then t0 + 10 * Minute
                      else t0 + sint (Timeout req * word_of_int Second));
          t1 = t0 + int d1;
          t2 = t1 + int d2;
          new = \<lparr>ID = migrationID, Request = req, Status = MigrationStatusPending,
                 Details = \<lparr>MigrationDetails.StartTime = t2, EndTime = None, Duration = None,
                            OriginalResources = None, OptimizedResources = None,
                            ContainerStates = [], CheckpointPath = '''', PVClaimName = '''',
                            NewPodName = ''''\<rparr>,
                 StartTime = t1, ctx = deadline\<rparr>;
          p = allocated mc
      in (Inr \<lparr>MigrationID = migrationID, MigrationResponse.Status = MigrationStatusPending,
                Message = ''Migration started'', MigrationResponse.Details = Details new\<rparr>,
          p,
          mc\<lparr>migrations := (migrations mc)(migrationID \<mapsto> p),
             objects := (objects mc)(p \<mapsto> new),
             allocated := p + 1,
             goroutines := (goroutines mc)(p \<mapsto> (Dispatch, t2)),
             now := t2,
             events := (events mc)(p := [WriteStatus MigrationStatusPending])\<rparr>))"

fun getStatusMessage :: "MigrationStatus \<Rightarrow> string" where
  "getStatusMessage MigrationStatusPending = ''Migration is pending''"
| "getStatusMessage MigrationStatusRunning = ''Migration is in progress''"
| "getStatusMessage MigrationStatusCompleted = ''Migration completed successfully''"
| "getStatusMessage MigrationStatusFailed = ''Migration failed''"
| "getStatusMessage MigrationStatusCancelled = ''Migration was cancelled''"

definition GetMigrationStatus ::
  "string \<Rightarrow> MigrationController \<Rightarrow> string + MigrationResponse" where
  "GetMigrationStatus migrationID mc =
     (case Option.bind (migrations mc migrationID) (objects mc) of
        None \<Rightarrow> Inl (''migration '' @ migrationID @ '' not found'')
      | Some j \<Rightarrow>
          Inr \<lparr>MigrationID = ID j, MigrationResponse.Status = Status j,
               Message = getStatusMessage (Status j), MigrationResponse.Details = Details j\<rparr>)"

definition GetMetrics :: "MigrationController \<Rightarrow> MigrationMetrics" where
  "GetMetrics mc = mc_metrics mc"

text \<open>
  Goroutines interleave. \<open>advance\<close> is \<open>executeMigration\<close> cut at the places where another
  goroutine can come in between: before each step, and before each of the two critical
  sections that end a job. Seven of these pieces in a row are \<open>executeMigration\<close>.
\<close>

fun advance :: "Client \<Rightarrow> point \<times> state \<Rightarrow> point \<times> state" where
  "advance k (Dispatch, s) = (Capture, updateJobStatus MigrationStatusRunning s)"
| "advance k (Capture, s) =
     (case captureContainerStates k s of
        (Inl err, s') \<Rightarrow> (Fail (''Failed to capture container states: '' @ err), s')
      | (Inr u, s') \<Rightarrow> (Checkpoint, s'))"
| "advance k (Checkpoint, s) =
     (if PreservePV (Request (job s))
      then (case createCheckpoint k s of
              (Inl err, s') \<Rightarrow> (Fail (''Failed to create checkpoint: '' @ err), s')
            | (Inr checkpointPVC, s') \<Rightarrow>
                (Create checkpointPVC,
                 set_details (\<lambda>d. d\<lparr>CheckpointPath := checkpointPVC,
                                   PVClaimName := checkpointPVC\<rparr>) s'))
      else (Create '''', s))"
| "advance k (Create checkpointPVC, s) =
     (case createOptimizedPod k checkpointPVC s of
        (Inl err, s') \<Rightarrow> (Fail (''Failed to create optimized pod: '' @ err), s')
      | (Inr u, s') \<Rightarrow> (Delete, s'))"
| "advance k (Delete, s) = (Collect, snd (deleteOriginalPod k s))"
| "advance k (Collect, s) = (Complete, snd (collectPostMigrationMetrics k s))"
| "advance k (Complete, s) = (Done, completeMigration s)"
| "advance k (Fail message, s) = (Done, failMigration message s)"
| "advance k (Done, s) = (Done, s)"

text \<open>
  What a goroutine sees when it takes a step: its job, the metrics as they are at that
  moment, its own reading of the clock and its own events.
\<close>

definition view :: "MigrationController \<Rightarrow> nat \<Rightarrow> MigrationJob \<Rightarrow> Time \<Rightarrow> state" where
  "view mc p j t =
     \<lparr>job = j, metrics = mc_metrics mc, checkpointSize = mc_checkpointSize mc,
      clock = t, trace = events mc p\<rparr>"

definition commit :: "nat \<Rightarrow> point \<times> state \<Rightarrow> MigrationController \<Rightarrow> MigrationController" where
  \<comment> \<open>what the step has written, and where the goroutine stands after it\<close>
  "commit p x mc =
     (case x of
        (pt, s) \<Rightarrow>
          mc\<lparr>objects := (objects mc)(p \<mapsto> job s),
             mc_metrics := metrics s,
             goroutines := (goroutines mc)(p \<mapsto> (pt, clock s)),
             events := (events mc)(p := trace s)\<rparr>)"

definition step :: "Client \<Rightarrow> nat \<Rightarrow> MigrationController \<Rightarrow> MigrationController" where
  \<comment> \<open>the goroutine of job \<open>p\<close> takes one step, against the cluster \<open>k\<close> as it is then\<close>
  "step k p mc =
     (case (objects mc p, goroutines mc p) of
        (Some j, Some (pt, t)) \<Rightarrow> commit p (advance k (pt, view mc p j t)) mc
      | _ \<Rightarrow> mc)"

definition goroutine :: "Client \<Rightarrow> nat \<Rightarrow> MigrationController \<Rightarrow> MigrationController" where
  \<comment> \<open>the goroutine of job \<open>p\<close> runs to its end with no other goroutine in between\<close>
  "goroutine k p mc =
     step k p (step k p (step k p (step k p (step k p (step k p (step k p mc))))))"

text \<open>
  The states of a controller: created, then requests, steps of goroutines in any order,
  and time passing.
\<close>

inductive reachable :: "MigrationController \<Rightarrow> bool" where
  created: "reachable (NewMigrationController t)"
| request: "reachable mc \<Longrightarrow> reachable (snd (snd (StartMigration req uuid d1 d2 mc)))"
| run: "reachable mc \<Longrightarrow> reachable (step k p mc)"
| wait: "reachable mc \<Longrightarrow> reachable (mc\<lparr>now := now mc + int d\<rparr>)"

section \<open>Reading the events of a run\<close>

text \<open>
  Steps 1 to 3 are fail-fast: the pipeline returns at the first error of one of their
  calls, except the sampling of the original usage in step 1, whose error is replaced
  by a zero sample. Steps 4 and 5 are best-effort.
\<close>

fun failfast :: "call \<Rightarrow> bool" where
  "failfast CallGetPodMetrics = False"
| "failfast CallDeletePod = False"
| "failfast c = True"

fun fatal :: "event \<Rightarrow> bool" where
  "fatal (Invoke c t ok) = (failfast c \<and> \<not> ok)"
| "fatal e = False"

fun effect :: "event \<Rightarrow> bool" where
  "effect (Invoke c t ok) = True"
| "effect (Sleep d) = True"
| "effect e = False"

fun in_time :: "Time \<Rightarrow> event \<Rightarrow> bool" where
  "in_time d (Invoke c t ok) = (t < d \<or> \<not> ok)"
| "in_time d e = True"

definition extends :: "state \<Rightarrow> state \<Rightarrow> event list \<Rightarrow> bool" where
  \<comment> \<open>\<open>s'\<close> comes after \<open>s\<close> by the events \<open>evs\<close>, none of them a write, and with the
      fields and metrics that only the terminal transitions and the status update write
      left as they were\<close>
  "extends s s' evs \<longleftrightarrow>
     trace s' = trace s @ evs \<and> (\<forall>e \<in> set evs. effect e \<and> in_time (ctx (job s)) e) \<and>
     clock s \<le> clock s' \<and> metrics s' = metrics s \<and> checkpointSize s' = checkpointSize s \<and>
     ID (job s') = ID (job s) \<and> Request (job s') = Request (job s) \<and>
     Status (job s') = Status (job s) \<and> StartTime (job s') = StartTime (job s) \<and>
     ctx (job s') = ctx (job s) \<and>
     MigrationDetails.StartTime (details s') = MigrationDetails.StartTime (details s) \<and>
     EndTime (details s') = EndTime (details s) \<and>
     Duration (details s') = Duration (details s)"

definition step_result :: "string + 'a \<Rightarrow> event list \<Rightarrow> bool" where
  \<comment> \<open>a step that returns an error ends with the failed fail-fast call, its only one;
      a step that returns none has no failed fail-fast call\<close>
  "step_result r evs \<longleftrightarrow>
     (case r of
        Inl err \<Rightarrow> evs \<noteq> [] \<and> fatal (last evs) \<and> \<not> list_ex fatal (butlast evs)
      | Inr v \<Rightarrow> \<not> list_ex fatal evs)"

definition status_writes :: "event list \<Rightarrow> MigrationStatus list" where
  "status_writes evs = concat (map (\<lambda>e. case e of WriteStatus st \<Rightarrow> [st] | _ \<Rightarrow> []) evs)"

definition end_writes :: "event list \<Rightarrow> (Time \<times> Duration) list" where
  "end_writes evs = concat (map (\<lambda>e. case e of WriteEnd t d \<Rightarrow> [(t, d)] | _ \<Rightarrow> []) evs)"

definition arrival :: "Time \<Rightarrow> Time \<Rightarrow> 'a reply \<Rightarrow> Time" where
  \<comment> \<open>when a call made at \<open>t\<close> under the deadline \<open>d\<close> returns\<close>
  "arrival d t r = (if d \<le> t + int (fst r) then max t d else t + int (fst r))"

definition answer :: "Time \<Rightarrow> Time \<Rightarrow> 'a reply \<Rightarrow> string + 'a" where
  \<comment> \<open>and what it returns\<close>
  "answer d t r = (if d \<le> t + int (fst r) then Inl ''context deadline exceeded'' else snd r)"

fun is_call :: "call \<Rightarrow> event \<Rightarrow> bool" where
  "is_call c (Invoke c' t ok) = (c' = c)"
| "is_call c e = False"

fun best_effort :: "event \<Rightarrow> bool" where
  "best_effort (Invoke c t ok) = (c = CallDeletePod)"
| "best_effort (Sleep d) = True"
| "best_effort e = False"

definition new_events :: "state \<Rightarrow> state \<Rightarrow> event list" where
  \<comment> \<open>the events between an earlier and a later state of one goroutine\<close>
  "new_events s s' = drop (length (trace s)) (trace s')"

definition terminal :: "MigrationStatus \<Rightarrow> bool" where
  "terminal st \<longleftrightarrow> st = MigrationStatusCompleted \<or> st = MigrationStatusFailed"

text \<open>
  The life of a job, as the state of its goroutine shows it: pending until it is
  dispatched, with nothing written but its creation; then running, through calls and
  sleeps; and terminal after one transition that writes the status, the end time and
  the duration together.
\<close>

definition life :: "point \<Rightarrow> state \<Rightarrow> bool" where
  "life pt s \<longleftrightarrow>
     StartTime (job s) \<le> clock s \<and> MigrationDetails.StartTime (details s) \<le> clock s \<and>
     (if pt = Dispatch
      then Status (job s) = MigrationStatusPending \<and>
           trace s = [WriteStatus MigrationStatusPending] \<and>
           EndTime (details s) = None \<and> Duration (details s) = None
      else if pt = Done
      then \<exists>evs u. terminal (Status (job s)) \<and> (\<forall>e \<in> set evs. effect e) \<and>
           trace s =
             WriteStatus MigrationStatusPending # WriteStatus MigrationStatusRunning # evs @
               [WriteStatus (Status (job s)), WriteEnd u (Sub u (StartTime (job s)))] \<and>
           EndTime (details s) = Some u \<and>
           Duration (details s) = Some (Sub u (StartTime (job s))) \<and>
           StartTime (job s) \<le> u \<and> MigrationDetails.StartTime (details s) \<le> u \<and>
           u \<le> clock s
      else \<exists>evs. Status (job s) = MigrationStatusRunning \<and> (\<forall>e \<in> set evs. effect e) \<and>
           trace s =
             WriteStatus MigrationStatusPending # WriteStatus MigrationStatusRunning # evs \<and>
           EndTime (details s) = None \<and> Duration (details s) = None)"

definition lifecycle :: "MigrationController \<Rightarrow> nat \<Rightarrow> MigrationJob \<Rightarrow> bool" where
  "lifecycle mc p j \<longleftrightarrow>
     (case goroutines mc p of
        None \<Rightarrow> False
      | Some (pt, t) \<Rightarrow> life pt (view mc p j t))"

definition well_formed :: "MigrationController \<Rightarrow> bool" where
  "well_formed mc \<longleftrightarrow>
     (\<forall>p. (objects mc p = None) = (allocated mc \<le> p)) \<and>
     (\<forall>p j. objects mc p = Some j \<longrightarrow> lifecycle mc p j) \<and>
     TotalMigrations (mc_metrics mc) = SuccessfulMigrations (mc_metrics mc)"
section \<open>Concrete runs\<close>

text \<open>
  The request of the end-to-end scenario of the specification, and a cluster in which
  every call succeeds: pod \<open>p1\<close> has one running and one completed container and uses
  2.0 cores and 1000 bytes, the new pod uses 1.0 core and 600 bytes.
\<close>

definition request1 :: MigrationRequest where
  "request1 =
     \<lparr>PodName = ''p1'', PodNamespace = ''default'', SourceNode = ''n1'', TargetNode = ''n2'',
      PreservePV = True, ForceRestart = False, Timeout = 0\<rparr>"

definition cluster :: Client where
  "cluster =
     \<lparr>GetPod = (\<lambda>t ns n. (1000000, Inr \<lparr>Name = n, Namespace = ns\<rparr>)),
      GetPodContainerStates = (\<lambda>t pod. (1000000, Inr
        [\<lparr>ContainerState.Name = ''trainer'', State = ''running'', RestartCount = 0,
          ShouldMigrate = True\<rparr>,
         \<lparr>ContainerState.Name = ''loader'', State = ''completed'', RestartCount = 0,
          ShouldMigrate = False\<rparr>])),
      GetPodMetrics = (\<lambda>t ns n. (1000000, Inr
        (if n = ''p1''
         then \<lparr>CPUUsage = Finite False 2, MemoryUsage = 1000, Timestamp = t\<rparr>
         else \<lparr>CPUUsage = Finite False 1, MemoryUsage = 600, Timestamp = t\<rparr>))),
      CreatePersistentVolumeClaim = (\<lambda>t ns n size. (1000000, Inr ())),
      CreateOptimizedPod = (\<lambda>t pod node cs pvc.
        (1000000, Inr \<lparr>Name = Name pod @ ''-migrated'', Namespace = Namespace pod\<rparr>)),
      WaitForPodReady = (\<lambda>t ns n timeout. (2000000000, Inr ())),
      DeletePod = (\<lambda>t ns n. (1000000, Inr ()))\<rparr>"

definition no_pod :: Client where
  \<comment> \<open>the pod to migrate does not exist\<close>
  "no_pod = cluster\<lparr>GetPod := (\<lambda>t ns n. (1000000, Inl ''not found''))\<rparr>"

definition started :: MigrationController where
  \<comment> \<open>a new controller after one request\<close>
  "started =
     snd (snd (StartMigration request1 ''0f8fad5b-d9cb-469f-a165-70867728950e'' 100 100
                 (NewMigrationController 1700000000000000000)))"

text \<open>
  The job that request creates, and the state in which its goroutine starts. The second
  job is the same request with a timeout of ten seconds.
\<close>

definition job1 :: MigrationJob where
  "job1 =
     \<lparr>ID = ''migration-0f8fad5b'', Request = request1, Status = MigrationStatusPending,
      Details =
        \<lparr>MigrationDetails.StartTime = 1700000000000000200, EndTime = None, Duration = None,
         OriginalResources = None, OptimizedResources = None, ContainerStates = [],
         CheckpointPath = '''', PVClaimName = '''', NewPodName = ''''\<rparr>,
      StartTime = 1700000000000000100, ctx = 1700000600000000000\<rparr>"

definition state1 :: state where
  "state1 =
     \<lparr>job = job1,
      metrics =
        \<lparr>TotalMigrations = 0, SuccessfulMigrations = 0, FailedMigrations = 0,
         AverageDuration = 0, CPUSavings = Finite False 0, MemorySavings = Finite False 0\<rparr>,
      checkpointSize = ''1Gi'', clock = 1700000000000000200,
      trace = [WriteStatus MigrationStatusPending]\<rparr>"

definition request2 :: MigrationRequest where
  "request2 = request1\<lparr>Timeout := 10\<rparr>"

definition job2 :: MigrationJob where
  "job2 = job1\<lparr>Request := request2, ctx := 1700000010000000000\<rparr>"

definition state2 :: state where
  "state2 = state1\<lparr>job := job2\<rparr>"

definition flaky :: Client where
  \<comment> \<open>the original pod cannot be deleted and the new pod has no metrics\<close>
  "flaky = cluster
     \<lparr>GetPodMetrics := (\<lambda>t ns n.
        if n = ''p1'' then GetPodMetrics cluster t ns n else (1000000, Inl ''unavailable'')),
      DeletePod := (\<lambda>t ns n. (1000000, Inl ''forbidden''))\<rparr>"

text \<open>
  Jobs that overlap. The first job has failed; then two more requests come in, the second
  of them for pod \<open>p2\<close> and without a checkpoint. The goroutine of job 1 runs up to its
  terminal transition and is kept waiting there, while the goroutine of job 2 runs to
  its end: job 2 completes first, one millisecond before job 1 reads the clock for its
  own end.
\<close>

definition request3 :: MigrationRequest where
  "request3 = request1\<lparr>PodName := ''p2'', PreservePV := False\<rparr>"

definition three_jobs :: MigrationController where
  "three_jobs =
     snd (snd (StartMigration request3 ''16fd2706-8baf-433b-82eb-8c7fada847da'' 100 300
       (snd (snd (StartMigration request1 ''7c9e6679-7425-40de-944b-e07fc1f90ae7'' 100 100
          (goroutine no_pod 0 started))))))"

definition six_steps :: "Client \<Rightarrow> nat \<Rightarrow> MigrationController \<Rightarrow> MigrationController" where
  \<comment> \<open>a goroutine goes from dispatch to the place before its terminal transition\<close>
  "six_steps k p mc = step k p (step k p (step k p (step k p (step k p (step k p mc)))))"

definition overlapping :: MigrationController where
  "overlapping = step cluster 2 (six_steps cluster 2 (six_steps cluster 1 three_jobs))"

text \<open>States of the first job on its way, for the two steps that deal with samples.\<close>

definition measured :: state where
  \<comment> \<open>a running job with both samples, before its terminal transition\<close>
  "measured =
     state1\<lparr>job := job1
       \<lparr>Status := MigrationStatusRunning,
        Details := (Details job1)
          \<lparr>OriginalResources :=
             Some \<lparr>CPUUsage = Finite False 2, MemoryUsage = 1000,
                   Timestamp = 1700000000002000200\<rparr>,
           OptimizedResources :=
             Some \<lparr>CPUUsage = Finite False 1, MemoryUsage = 600,
                   Timestamp = 1700000032007000200\<rparr>\<rparr>\<rparr>\<rparr>"

definition settled :: state where
  \<comment> \<open>a running job after step 4: the original sample taken, the new pod ready\<close>
  "settled =
     state1\<lparr>job := job1
       \<lparr>Status := MigrationStatusRunning,
        Details := (Details job1)
          \<lparr>OriginalResources :=
             Some \<lparr>CPUUsage = Finite False 2, MemoryUsage = 1000,
                   Timestamp = 1700000000002000200\<rparr>,
           NewPodName := ''p1-migrated''\<rparr>\<rparr>,
       clock := 1700000002007000200\<rparr>"

definition metered :: Client where
  \<comment> \<open>the metrics of every pod are 1.0 core and 600 bytes, stamped when the answer leaves\<close>
  "metered = cluster
     \<lparr>GetPodMetrics := (\<lambda>t ns n. (1000000, Inr
        \<lparr>CPUUsage = Finite False 1, MemoryUsage = 600, Timestamp = t + 1000000\<rparr>))\<rparr>"

definition resubmitted :: "(string + MigrationResponse) \<times> nat \<times> MigrationController" where
  \<comment> \<open>a second request whose UUID begins with the eight characters of the first\<close>
  "resubmitted =
     StartMigration request3 ''0f8fad5b-1c2e-4b7a-9d3f-5a6b7c8d9e0f'' 100 100 started"

definition unmetered :: Client where
  \<comment> \<open>the metrics of the original pod are unavailable, those of the new pod are not\<close>
  "unmetered = cluster
     \<lparr>GetPodMetrics := (\<lambda>t ns n.
        if n = ''p1'' then (1000000, Inl ''unavailable'') else GetPodMetrics cluster t ns n)\<rparr>"

section \<open>The events of the steps\<close>

lemma invoke_eq:
  "invoke c r s =
     (answer (ctx (job s)) (clock s) r,
      s\<lparr>clock := arrival (ctx (job s)) (clock s) r,
        trace := trace s @ [Invoke c (arrival (ctx (job s)) (clock s) r)
                              (is_ok (answer (ctx (job s)) (clock s) r))]\<rparr>)"
  by (simp add: invoke_def arrival_def answer_def is_ok_def Let_def)

lemma arrival_mono [simp]: "x \<le> t \<Longrightarrow> x \<le> arrival d t r"
  by (auto simp: arrival_def)

lemma answer_Inr_in_time [simp]: "answer d t r = Inr v \<Longrightarrow> arrival d t r < d"
  by (auto simp: arrival_def answer_def split: if_splits)

lemma arrival_in_time [simp]:
  "in_time d (Invoke c (arrival d t r) (is_ok (answer d t r)))"
  by (simp add: arrival_def answer_def is_ok_def)

lemma is_ok_simps [simp]: "is_ok (Inl e) = False" "is_ok (Inr v) = True"
  by (simp_all add: is_ok_def)

lemmas run_defs = invoke_eq extends_def step_result_def set_details_def details_def Let_def

lemma captureContainerStates_step:
  "captureContainerStates k s = (r, s') \<Longrightarrow> \<exists>evs. extends s s' evs \<and> step_result r evs \<and> \<not> list_ex best_effort evs"
  by (auto simp: captureContainerStates_def run_defs split: prod.splits sum.splits)

lemma createCheckpoint_step:
  "createCheckpoint k s = (r, s') \<Longrightarrow> \<exists>evs. extends s s' evs \<and> step_result r evs \<and> \<not> list_ex best_effort evs"
  by (auto simp: createCheckpoint_def run_defs split: prod.splits sum.splits)

lemma createOptimizedPod_step:
  "createOptimizedPod k pvc s = (r, s') \<Longrightarrow> \<exists>evs. extends s s' evs \<and> step_result r evs \<and> \<not> list_ex best_effort evs"
  by (auto simp: createOptimizedPod_def run_defs split: prod.splits sum.splits)

lemma deleteOriginalPod_step:
  "deleteOriginalPod k s = (r, s') \<Longrightarrow>
     \<exists>ok. extends s s' [Invoke CallDeletePod (clock s') ok]"
  by (auto simp: deleteOriginalPod_def run_defs split: prod.splits sum.splits)

lemma collectPostMigrationMetrics_step:
  "collectPostMigrationMetrics k s = (r, s') \<Longrightarrow>
     \<exists>evs. extends s s' (Sleep (30 * Second) # evs) \<and> \<not> list_ex fatal evs \<and> r = Inr ()"
  by (auto simp: collectPostMigrationMetrics_def fallback_def run_defs Second_def split: prod.splits sum.splits option.splits if_splits)


lemma step_result_append:
  "\<not> list_ex fatal e1 \<Longrightarrow> step_result r e2 \<Longrightarrow> step_result r (e1 @ e2)"
  by (auto simp: step_result_def butlast_append list_ex_iff split: sum.splits)

lemma not_ex_append:
  "\<not> list_ex P e1 \<Longrightarrow> \<not> list_ex P e2 \<Longrightarrow> \<not> list_ex P (e1 @ e2)"
  by (auto simp: list_ex_iff)

lemma checkpoint_step:
  assumes "(if PreservePV (Request (job s))
            then (case createCheckpoint k s of
                    (Inl err, s3) \<Rightarrow> (Inl err, s3)
                  | (Inr checkpointPVC, s3) \<Rightarrow>
                      (Inr checkpointPVC,
                       set_details (\<lambda>d. d\<lparr>CheckpointPath := checkpointPVC,
                                         PVClaimName := checkpointPVC\<rparr>) s3))
            else (Inr [], s)) = (r, s')"
  shows "\<exists>evs. extends s s' evs \<and> step_result r evs \<and> \<not> list_ex best_effort evs"
proof (cases "PreservePV (Request (job s))")
  case False
  with assms have "r = Inr []" "s' = s" by auto
  then show ?thesis by (auto simp: extends_def step_result_def intro!: exI[of _ "[]"])
next
  case True
  obtain r0 s0 where c: "createCheckpoint k s = (r0, s0)" by fastforce
  from createCheckpoint_step[OF c] obtain evs
    where e: "extends s s0 evs" "step_result r0 evs" "\<not> list_ex best_effort evs" by blast
  show ?thesis
  proof (cases r0)
    case (Inl err)
    with True c assms have "r = Inl err" "s' = s0" by auto
    with e Inl show ?thesis by auto
  next
    case (Inr pvc)
    with True c assms have "r = Inr pvc"
      "s' = set_details (\<lambda>d. d\<lparr>CheckpointPath := pvc, PVClaimName := pvc\<rparr>) s0" by auto
    with e Inr show ?thesis
      by (auto simp: extends_def step_result_def set_details_def details_def)
  qed
qed

lemma extends_trans:
  "extends s s' e1 \<Longrightarrow> extends s' s'' e2 \<Longrightarrow> extends s s'' (e1 @ e2)"
  by (auto simp: extends_def)

lemma executeMigration_run:
  "\<exists>evs sm. extends (updateJobStatus MigrationStatusRunning s) sm evs \<and>
     ((\<exists>msg. executeMigration k s = failMigration msg sm) \<and> evs \<noteq> [] \<and> fatal (last evs) \<and>
      \<not> list_ex fatal (butlast evs) \<and> \<not> list_ex best_effort evs \<or>
      executeMigration k s = completeMigration sm \<and> \<not> list_ex fatal evs \<and>
      list_ex (is_call CallDeletePod) evs \<and> Sleep (30 * Second) \<in> set evs)"
proof -
  let ?s1 = "updateJobStatus MigrationStatusRunning s"
  obtain r1 s2 where c1: "captureContainerStates k ?s1 = (r1, s2)" by fastforce
  from captureContainerStates_step[OF c1] obtain e1
    where x1: "extends ?s1 s2 e1" "step_result r1 e1" "\<not> list_ex best_effort e1" by blast
  show ?thesis
  proof (cases r1)
    case (Inl err)
    then have "executeMigration k s = failMigration (''Failed to capture container states: '' @ err) s2"
      using c1 by (simp add: executeMigration_def Let_def)
    with x1 Inl show ?thesis
      by (intro exI[of _ e1] exI[of _ s2]) (auto simp: step_result_def)
  next
    case r1: (Inr u1)
    obtain r2 s3 where c2: "(if PreservePV (Request (job s2))
            then (case createCheckpoint k s2 of
                    (Inl err, s3) \<Rightarrow> (Inl err, s3)
                  | (Inr checkpointPVC, s3) \<Rightarrow>
                      (Inr checkpointPVC,
                       set_details (\<lambda>d. d\<lparr>CheckpointPath := checkpointPVC,
                                         PVClaimName := checkpointPVC\<rparr>) s3))
            else (Inr [], s2)) = (r2, s3)" by fastforce
    from checkpoint_step[OF c2] obtain e2
      where x2: "extends s2 s3 e2" "step_result r2 e2" "\<not> list_ex best_effort e2" by blast
    from x1 r1 have n1: "\<not> list_ex fatal e1" by (simp add: step_result_def)
    have x12: "extends ?s1 s3 (e1 @ e2)" "step_result r2 (e1 @ e2)"
      "\<not> list_ex best_effort (e1 @ e2)"
      using extends_trans[OF x1(1) x2(1)] step_result_append[OF n1 x2(2)]
        not_ex_append[OF x1(3) x2(3)] by simp_all
    show ?thesis
    proof (cases r2)
      case (Inl err)
      then have "executeMigration k s = failMigration (''Failed to create checkpoint: '' @ err) s3"
        using c1 r1 c2 by (simp add: executeMigration_def Let_def)
      with x12 Inl show ?thesis
        by (intro exI[of _ "e1 @ e2"] exI[of _ s3]) (auto simp: step_result_def)
    next
      case r2: (Inr pvc)
      obtain r3 s4 where c3: "createOptimizedPod k pvc s3 = (r3, s4)" by fastforce
      from createOptimizedPod_step[OF c3] obtain e3
        where x3: "extends s3 s4 e3" "step_result r3 e3" "\<not> list_ex best_effort e3" by blast
      from x12 r2 have n2: "\<not> list_ex fatal (e1 @ e2)" by (simp add: step_result_def)
      have x123: "extends ?s1 s4 ((e1 @ e2) @ e3)" "step_result r3 ((e1 @ e2) @ e3)"
        "\<not> list_ex best_effort ((e1 @ e2) @ e3)"
        using extends_trans[OF x12(1) x3(1)] step_result_append[OF n2 x3(2)]
          not_ex_append[OF x12(3) x3(3)] by simp_all
      show ?thesis
      proof (cases r3)
        case (Inl err)
        then have "executeMigration k s = failMigration (''Failed to create optimized pod: '' @ err) s4"
          using c1 r1 c2 r2 c3 by (simp add: executeMigration_def Let_def)
        with x123 Inl show ?thesis
          by (intro exI[of _ "(e1 @ e2) @ e3"] exI[of _ s4]) (auto simp: step_result_def)
      next
        case r3: (Inr u3)
        obtain r4 s5 where c4: "deleteOriginalPod k s4 = (r4, s5)" by fastforce
        obtain r5 s6 where c5: "collectPostMigrationMetrics k s5 = (r5, s6)" by fastforce
        from deleteOriginalPod_step[OF c4] obtain ok
          where x4: "extends s4 s5 [Invoke CallDeletePod (clock s5) ok]" by blast
        from collectPostMigrationMetrics_step[OF c5] obtain e5
          where x5: "extends s5 s6 (Sleep (30 * Second) # e5)" "\<not> list_ex fatal e5" by blast
        have fin: "executeMigration k s = completeMigration s6"
          using c1 r1 c2 r2 c3 r3 c4 c5 by (simp add: executeMigration_def Let_def)
        from x123 r3 have n3: "\<not> list_ex fatal ((e1 @ e2) @ e3)" by (simp add: step_result_def)
        have "extends ?s1 s6 ((((e1 @ e2) @ e3) @ [Invoke CallDeletePod (clock s5) ok]) @ Sleep (30 * Second) # e5)"
          using extends_trans[OF extends_trans[OF x123(1) x4] x5(1)] by simp
        moreover have "\<not> list_ex fatal ((((e1 @ e2) @ e3) @ [Invoke CallDeletePod (clock s5) ok]) @ Sleep (30 * Second) # e5)"
          using n3 x5(2) by (auto simp: list_ex_iff)
        ultimately show ?thesis using fin
          by (intro exI[of _ "(((e1 @ e2) @ e3) @ [Invoke CallDeletePod (clock s5) ok]) @ Sleep (30 * Second) # e5"] exI[of _ s6]) (auto simp: list_ex_iff)
      qed
    qed
  qed
qed

lemma Status_updateJobStatus:
  "extends (updateJobStatus st s) sm evs \<Longrightarrow>
     trace sm = trace s @ WriteStatus st # evs \<and> clock s \<le> clock sm \<and> metrics sm = metrics s \<and>
     checkpointSize sm = checkpointSize s \<and> ID (job sm) = ID (job s) \<and>
     Request (job sm) = Request (job s) \<and> StartTime (job sm) = StartTime (job s) \<and>
     ctx (job sm) = ctx (job s) \<and>
     MigrationDetails.StartTime (details sm) = MigrationDetails.StartTime (details s) \<and>
     (\<forall>e \<in> set evs. effect e \<and> in_time (ctx (job s)) e)"
  by (simp add: extends_def updateJobStatus_def details_def)

lemma executeMigration_summary:
  "\<exists>T evs t.
     trace (executeMigration k s) =
       trace s @ WriteStatus MigrationStatusRunning # evs @
         [WriteStatus T, WriteEnd t (Sub t (StartTime (job s)))] \<and>
     (\<forall>e \<in> set evs. effect e \<and> in_time (ctx (job s)) e) \<and>
     (T = MigrationStatusFailed \<and> evs \<noteq> [] \<and> fatal (last evs) \<and> \<not> list_ex fatal (butlast evs) \<and>
      \<not> list_ex best_effort evs \<and>
      metrics (executeMigration k s) =
        (metrics s)\<lparr>FailedMigrations := FailedMigrations (metrics s) + 1\<rparr> \<or>
      T = MigrationStatusCompleted \<and> \<not> list_ex fatal evs \<and>
      list_ex (is_call CallDeletePod) evs \<and> Sleep (30 * Second) \<in> set evs \<and>
      TotalMigrations (metrics (executeMigration k s)) = TotalMigrations (metrics s) + 1 \<and>
      SuccessfulMigrations (metrics (executeMigration k s)) =
        SuccessfulMigrations (metrics s) + 1 \<and>
      FailedMigrations (metrics (executeMigration k s)) = FailedMigrations (metrics s) \<and>
      AverageDuration (metrics (executeMigration k s)) =
        (if 0 <s TotalMigrations (metrics s) + 1
         then div64 (AverageDuration (metrics s) * (TotalMigrations (metrics s) + 1 - 1) +
                     Sub t (StartTime (job s))) (TotalMigrations (metrics s) + 1)
         else AverageDuration (metrics s))) \<and>
     Status (job (executeMigration k s)) = T \<and>
     ID (job (executeMigration k s)) = ID (job s) \<and>
     Request (job (executeMigration k s)) = Request (job s) \<and>
     StartTime (job (executeMigration k s)) = StartTime (job s) \<and>
     ctx (job (executeMigration k s)) = ctx (job s) \<and>
     MigrationDetails.StartTime (details (executeMigration k s)) =
       MigrationDetails.StartTime (details s) \<and>
     EndTime (details (executeMigration k s)) = Some t \<and>
     Duration (details (executeMigration k s)) = Some (Sub t (StartTime (job s))) \<and>
     clock s \<le> t \<and> clock (executeMigration k s) = t \<and>
     checkpointSize (executeMigration k s) = checkpointSize s"
proof -
  from executeMigration_run[of s k] obtain evs sm where
    x: "extends (updateJobStatus MigrationStatusRunning s) sm evs"
    and y: "(\<exists>msg. executeMigration k s = failMigration msg sm) \<and> evs \<noteq> [] \<and> fatal (last evs) \<and>
            \<not> list_ex fatal (butlast evs) \<and> \<not> list_ex best_effort evs \<or>
            executeMigration k s = completeMigration sm \<and> \<not> list_ex fatal evs \<and>
            list_ex (is_call CallDeletePod) evs \<and> Sleep (30 * Second) \<in> set evs"
    by blast
  note f = Status_updateJobStatus[OF x]
  from y show ?thesis
  proof
    assume a: "(\<exists>msg. executeMigration k s = failMigration msg sm) \<and> evs \<noteq> [] \<and> fatal (last evs) \<and>
            \<not> list_ex fatal (butlast evs) \<and> \<not> list_ex best_effort evs"
    then obtain msg where m: "executeMigration k s = failMigration msg sm" by blast
    show ?thesis
      apply (rule exI[of _ MigrationStatusFailed], rule exI[of _ evs], rule exI[of _ "clock sm"])
      using a f by (simp add: m failMigration_def Let_def details_def)
  next
    assume a: "executeMigration k s = completeMigration sm \<and> \<not> list_ex fatal evs \<and>
            list_ex (is_call CallDeletePod) evs \<and> Sleep (30 * Second) \<in> set evs"
    show ?thesis
      apply (rule exI[of _ MigrationStatusCompleted], rule exI[of _ evs], rule exI[of _ "clock sm"])
      using a f by (simp add: completeMigration_def Let_def details_def split: option.splits)
  qed
qed

section \<open>Steps of goroutines\<close>

lemma extends_checkpointSize: "extends s s' evs \<Longrightarrow> checkpointSize s' = checkpointSize s"
  by (simp add: extends_def)

lemma advance_middle:
  assumes "pt = Capture \<or> pt = Checkpoint \<or> pt = Create pvc \<or> pt = Delete \<or> pt = Collect"
    and "advance k (pt, s) = (pt', s')"
  shows "\<exists>evs. extends s s' evs \<and> pt' \<noteq> Dispatch \<and> pt' \<noteq> Done"
proof -
  from assms(1) consider "pt = Capture" | "pt = Checkpoint" | "pt = Create pvc"
    | "pt = Delete" | "pt = Collect" by blast
  then show ?thesis
  proof cases
    case 1
    obtain r s1 where c: "captureContainerStates k s = (r, s1)" by fastforce
    from captureContainerStates_step[OF c] assms(2) 1 c show ?thesis
      by (auto split: sum.splits)
  next
    case 2
    obtain r s1 where c: "(if PreservePV (Request (job s))
            then (case createCheckpoint k s of
                    (Inl err, s3) \<Rightarrow> (Inl err, s3)
                  | (Inr checkpointPVC, s3) \<Rightarrow>
                      (Inr checkpointPVC,
                       set_details (\<lambda>d. d\<lparr>CheckpointPath := checkpointPVC,
                                         PVClaimName := checkpointPVC\<rparr>) s3))
            else (Inr [], s)) = (r, s1)" by fastforce
    from checkpoint_step[OF c] obtain evs where e: "extends s s1 evs" by blast
    from c assms(2) 2 have "s' = s1 \<and> pt' \<noteq> Dispatch \<and> pt' \<noteq> Done"
      by (auto split: if_splits prod.splits sum.splits)
    with e show ?thesis by blast
  next
    case 3
    obtain r s1 where c: "createOptimizedPod k pvc s = (r, s1)" by fastforce
    from createOptimizedPod_step[OF c] assms(2) 3 c show ?thesis
      by (auto split: sum.splits)
  next
    case 4
    obtain r s1 where c: "deleteOriginalPod k s = (r, s1)" by fastforce
    from deleteOriginalPod_step[OF c] assms(2) 4 c show ?thesis
      by auto
  next
    case 5
    obtain r s1 where c: "collectPostMigrationMetrics k s = (r, s1)" by fastforce
    from collectPostMigrationMetrics_step[OF c] assms(2) 5 c show ?thesis
      by auto
  qed
qed

lemma point_cases:
  obtains "pt = Dispatch" | "pt = Done" | "pt = Complete" | msg where "pt = Fail msg"
  | pvc where "pt = Capture \<or> pt = Checkpoint \<or> pt = Create pvc \<or> pt = Delete \<or> pt = Collect"
  by (cases pt) auto

lemma advance_checkpointSize:
  "advance k (pt, s) = (pt', s') \<Longrightarrow> checkpointSize s' = checkpointSize s"
proof (cases pt rule: point_cases)
  case 5
  assume "advance k (pt, s) = (pt', s')"
  from advance_middle[OF 5 this] show ?thesis by (auto simp: extends_def)
qed (auto simp: updateJobStatus_def failMigration_def completeMigration_def Let_def)

lemma advance_life:
  assumes "life pt s" and "advance k (pt, s) = (pt', s')"
  shows "life pt' s'"
proof (cases pt rule: point_cases)
  case 1
  with assms show ?thesis
    by (auto simp: life_def updateJobStatus_def details_def)
next
  case 2
  with assms show ?thesis by auto
next
  case 3
  with assms show ?thesis
    by (auto simp: life_def completeMigration_def details_def terminal_def Let_def)
next
  case (4 msg)
  with assms show ?thesis
    by (auto simp: life_def failMigration_def details_def terminal_def Let_def)
next
  case (5 pvc)
  from advance_middle[OF 5 assms(2)] obtain evs
    where e: "extends s s' evs" "pt' \<noteq> Dispatch" "pt' \<noteq> Done" by blast
  from 5 have n: "pt \<noteq> Dispatch" "pt \<noteq> Done" by auto
  from assms(1) n obtain evs0 where l: "StartTime (job s) \<le> clock s"
    "MigrationDetails.StartTime (details s) \<le> clock s"
    "Status (job s) = MigrationStatusRunning" "\<forall>e \<in> set evs0. effect e"
    "trace s = WriteStatus MigrationStatusPending # WriteStatus MigrationStatusRunning # evs0"
    "EndTime (details s) = None" "Duration (details s) = None"
    by (auto simp: life_def)
  have "\<forall>e \<in> set (evs0 @ evs). effect e" using l(4) e(1) by (auto simp: extends_def)
  moreover have "trace s' =
      WriteStatus MigrationStatusPending # WriteStatus MigrationStatusRunning # (evs0 @ evs)"
    using l(5) e(1) by (simp add: extends_def)
  ultimately show ?thesis
    using e l(1,2,3,6,7) unfolding life_def extends_def
    by (simp del: set_append)
qed

lemma advance_metrics:
  "advance k (pt, s) = (pt', s') \<Longrightarrow>
     (case pt of
        Fail msg \<Rightarrow>
          metrics s' = (metrics s)\<lparr>FailedMigrations := FailedMigrations (metrics s) + 1\<rparr>
      | Complete \<Rightarrow>
          TotalMigrations (metrics s') = TotalMigrations (metrics s) + 1 \<and>
          SuccessfulMigrations (metrics s') = SuccessfulMigrations (metrics s) + 1 \<and>
          FailedMigrations (metrics s') = FailedMigrations (metrics s)
      | _ \<Rightarrow> metrics s' = metrics s)"
proof (cases pt rule: point_cases)
  case (5 pvc)
  assume "advance k (pt, s) = (pt', s')"
  from advance_middle[OF 5 this] 5 show ?thesis by (auto simp: extends_def)
qed (auto simp: updateJobStatus_def failMigration_def completeMigration_def Let_def
      split: option.splits)

lemma step_cases:
  obtains "step k p mc = mc"
  | j pt t pt' s where "objects mc p = Some j" "goroutines mc p = Some (pt, t)"
      "advance k (pt, view mc p j t) = (pt', s)" "step k p mc = commit p (pt', s) mc"
proof (cases "objects mc p")
  case None
  then have "step k p mc = mc" by (simp add: step_def)
  then show ?thesis by (rule that(1))
next
  case (Some j)
  show ?thesis
  proof (cases "goroutines mc p")
    case None
    with Some have "step k p mc = mc" by (simp add: step_def)
    then show ?thesis by (rule that(1))
  next
    case g: (Some x)
    obtain pt t where x: "x = (pt, t)" by (cases x)
    obtain pt' s where a: "advance k (pt, view mc p j t) = (pt', s)" by fastforce
    from Some g x a have "step k p mc = commit p (pt', s) mc" by (simp add: step_def)
    with Some g x a show ?thesis by (intro that(2)) simp_all
  qed
qed

lemma commit_simps [simp]:
  "objects (commit p (pt, s) mc) = (objects mc)(p \<mapsto> job s)"
  "mc_metrics (commit p (pt, s) mc) = metrics s"
  "goroutines (commit p (pt, s) mc) = (goroutines mc)(p \<mapsto> (pt, clock s))"
  "events (commit p (pt, s) mc) = (events mc)(p := trace s)"
  "allocated (commit p (pt, s) mc) = allocated mc"
  "migrations (commit p (pt, s) mc) = migrations mc"
  "mc_checkpointSize (commit p (pt, s) mc) = mc_checkpointSize mc"
  "now (commit p (pt, s) mc) = now mc"
  by (simp_all add: commit_def)

lemma view_simps [simp]:
  "job (view mc p j t) = j" "metrics (view mc p j t) = mc_metrics mc"
  "checkpointSize (view mc p j t) = mc_checkpointSize mc" "clock (view mc p j t) = t"
  "trace (view mc p j t) = events mc p"
  by (simp_all add: view_def)

lemma lifecycle_other:
  "goroutines mc' q = goroutines mc q \<Longrightarrow> events mc' q = events mc q \<Longrightarrow>
   lifecycle mc' q j = lifecycle mc q j"
  by (simp add: lifecycle_def life_def details_def split: option.splits)

lemma well_formed_step:
  assumes "well_formed mc"
  shows "well_formed (step k p mc)"
proof (cases k p mc rule: step_cases)
  case 1
  with assms show ?thesis by simp
next
  case (2 j pt t pt' s)
  from assms have wf: "\<And>q. (objects mc q = None) = (allocated mc \<le> q)"
    "\<And>q j. objects mc q = Some j \<Longrightarrow> lifecycle mc q j"
    "TotalMigrations (mc_metrics mc) = SuccessfulMigrations (mc_metrics mc)"
    by (auto simp: well_formed_def)
  from wf(2)[OF 2(1)] 2(2) have l: "life pt (view mc p j t)" by (simp add: lifecycle_def)
  have l': "life pt' s" by (rule advance_life[OF l 2(3)])
  have a: "(objects (step k p mc) q = None) = (allocated (step k p mc) \<le> q)" for q
    using wf(1)[of q] wf(1)[of p] 2(1) by (auto simp: 2(4))
  have b: "lifecycle (step k p mc) q j'" if o: "objects (step k p mc) q = Some j'" for q j'
  proof (cases "q = p")
    case True
    with o have j': "j' = job s" by (simp add: 2(4))
    have v: "view (commit p (pt', s) mc) p (job s) (clock s) =
        s\<lparr>checkpointSize := mc_checkpointSize mc\<rparr>"
      by (simp add: view_def commit_def)
    have e: "life pt' (s\<lparr>checkpointSize := mc_checkpointSize mc\<rparr>) = life pt' s"
      by (simp add: life_def details_def)
    show ?thesis
      unfolding lifecycle_def j' True 2(4) by (simp add: v e l')
  next
    case False
    with o have "objects mc q = Some j'" by (simp add: 2(4))
    then have "lifecycle mc q j'" by (rule wf(2))
    moreover have "lifecycle (step k p mc) q j' = lifecycle mc q j'"
      by (rule lifecycle_other) (use False in \<open>simp_all add: 2(4)\<close>)
    ultimately show ?thesis by simp
  qed
  have c: "TotalMigrations (mc_metrics (step k p mc)) =
      SuccessfulMigrations (mc_metrics (step k p mc))"
    using advance_metrics[OF 2(3)] wf(3) by (cases pt) (auto simp: 2(4))
  from a b c show ?thesis unfolding well_formed_def by blast
qed

lemma StartMigration_fields:
  "snd (snd (StartMigration req uuid d1 d2 mc)) =
     mc\<lparr>migrations := (migrations mc)(''migration-'' @ take 8 uuid \<mapsto> allocated mc),
        objects := (objects mc)(allocated mc \<mapsto>
           \<lparr>ID = ''migration-'' @ take 8 uuid, Request = req, Status = MigrationStatusPending,
            Details = \<lparr>MigrationDetails.StartTime = now mc + int d1 + int d2, EndTime = None,
                       Duration = None, OriginalResources = None, OptimizedResources = None,
                       ContainerStates = [], CheckpointPath = [], PVClaimName = [],
                       NewPodName = []\<rparr>,
            StartTime = now mc + int d1,
            ctx = (if Timeout req = 0 then now mc + 10 * Minute
                   else now mc + sint (Timeout req * word_of_int Second))\<rparr>),
        allocated := allocated mc + 1,
        goroutines := (goroutines mc)(allocated mc \<mapsto> (Dispatch, now mc + int d1 + int d2)),
        now := now mc + int d1 + int d2,
        events := (events mc)(allocated mc := [WriteStatus MigrationStatusPending])\<rparr>"
  by (simp add: StartMigration_def Let_def)

lemma well_formed_request:
  assumes "well_formed mc"
  shows "well_formed (snd (snd (StartMigration req uuid d1 d2 mc)))"
proof -
  let ?a = "allocated mc"
  let ?mc' = "snd (snd (StartMigration req uuid d1 d2 mc))"
  from assms have wf: "\<And>q. (objects mc q = None) = (?a \<le> q)"
    "\<And>q j. objects mc q = Some j \<Longrightarrow> lifecycle mc q j"
    "TotalMigrations (mc_metrics mc) = SuccessfulMigrations (mc_metrics mc)"
    by (auto simp: well_formed_def)
  have a: "(objects ?mc' q = None) = (allocated ?mc' \<le> q)" for q
    using wf(1)[of q] by (auto simp: StartMigration_fields)
  have b: "lifecycle ?mc' q j" if o: "objects ?mc' q = Some j" for q j
  proof (cases "q = ?a")
    case True
    with o show ?thesis
      by (auto simp: StartMigration_fields lifecycle_def life_def view_def details_def)
  next
    case False
    with o have "objects mc q = Some j" by (simp add: StartMigration_fields)
    then have "lifecycle mc q j" by (rule wf(2))
    moreover have "lifecycle ?mc' q j = lifecycle mc q j"
      by (rule lifecycle_other) (use False in \<open>simp_all add: StartMigration_fields\<close>)
    ultimately show ?thesis by simp
  qed
  have c: "TotalMigrations (mc_metrics ?mc') = SuccessfulMigrations (mc_metrics ?mc')"
    using wf(3) by (simp add: StartMigration_fields)
  from a b c show ?thesis unfolding well_formed_def by blast
qed

lemma well_formed_reachable: "reachable mc \<Longrightarrow> well_formed mc"
proof (induction rule: reachable.induct)
  case (created t)
  show ?case by (simp add: well_formed_def NewMigrationController_def)
next
  case (request mc req uuid d1 d2)
  from request.IH show ?case by (rule well_formed_request)
next
  case (run mc k p)
  from run.IH show ?case by (rule well_formed_step)
next
  case (wait mc d)
  have "lifecycle (mc\<lparr>now := now mc + int d\<rparr>) p j = lifecycle mc p j" for p j
    by (rule lifecycle_other) simp_all
  with wait.IH show ?case
    unfolding well_formed_def by simp
qed

section \<open>The pieces make the whole\<close>

lemma advance_executeMigration:
  "advance k (advance k (advance k (advance k (advance k (advance k (advance k
     (Dispatch, s))))))) = (Done, executeMigration k s)"
  by (auto simp: executeMigration_def Let_def split: prod.splits sum.splits)

lemma commit_commit: "commit p x (commit p y mc) = commit p x mc"
  by (cases x, cases y) (simp add: commit_def)

lemma step_commit:
  assumes "checkpointSize s = mc_checkpointSize mc"
  shows "step k p (commit p (pt, s) mc) = commit p (advance k (pt, s)) mc"
proof -
  have v: "view (commit p (pt, s) mc) p (job s) (clock s) = s"
    using assms by (simp add: view_def commit_def)
  show ?thesis
    by (simp add: step_def v commit_commit del: advance.simps)
qed

lemma advance_checkpointSize':
  "checkpointSize (snd (advance k (pt, s))) = checkpointSize s"
  by (cases "advance k (pt, s)") (simp add: advance_checkpointSize)

lemma step_commit':
  assumes "checkpointSize (snd x) = mc_checkpointSize mc"
  shows "step k p (commit p x mc) = commit p (advance k x) mc"
  using step_commit[of "snd x" mc k p "fst x"] assms by simp

lemma goroutine_executeMigration:
  assumes "objects mc p = Some j" and "goroutines mc p = Some (Dispatch, t)"
  shows "goroutine k p mc = commit p (Done, executeMigration k (view mc p j t)) mc"
proof -
  let ?x = "(Dispatch, view mc p j t)"
  have c: "checkpointSize (snd (advance k x)) = checkpointSize (snd x)" for x
    by (cases x) (simp add: advance_checkpointSize')
  have 1: "step k p mc = commit p (advance k ?x) mc"
    using assms by (simp add: step_def)
  have 0: "checkpointSize (snd ?x) = mc_checkpointSize mc" by simp
  show ?thesis
    unfolding goroutine_def 1
    by (simp add: step_commit' c advance_executeMigration del: advance.simps)
qed

lemma reachable_job:
  assumes "reachable mc" and "objects mc p = Some j"
  obtains pt t where "goroutines mc p = Some (pt, t)" "life pt (view mc p j t)"
proof -
  from well_formed_reachable[OF assms(1)] assms(2) have "lifecycle mc p j"
    by (simp add: well_formed_def)
  then show ?thesis
    by (auto simp: lifecycle_def split: option.splits intro: that)
qed

lemma step_eq:
  assumes "objects mc p = Some j" and "goroutines mc p = Some (pt, t)"
  shows "step k p mc = commit p (advance k (pt, view mc p j t)) mc"
  using assms by (simp add: step_def)

lemma life_status:
  assumes "life pt s"
  shows "Status (job s) =
           (if pt = Dispatch then MigrationStatusPending
            else if pt = Done then Status (job s) else MigrationStatusRunning)"
    and "terminal (Status (job s)) \<longleftrightarrow> pt = Done"
  using assms by (auto simp: life_def terminal_def split: if_splits)

lemma advance_point:
  assumes "advance k (pt, s) = (pt', s')"
  shows "pt' \<noteq> Dispatch" and "pt' = Done \<longleftrightarrow> pt = Complete \<or> (\<exists>msg. pt = Fail msg) \<or> pt = Done"
proof -
  show "pt' \<noteq> Dispatch"
  proof (cases pt rule: point_cases)
    case (5 pvc)
    from advance_middle[OF 5 assms] show ?thesis by blast
  qed (use assms in auto)
  show "pt' = Done \<longleftrightarrow> pt = Complete \<or> (\<exists>msg. pt = Fail msg) \<or> pt = Done"
  proof (cases pt rule: point_cases)
    case (5 pvc)
    from advance_middle[OF 5 assms] 5 show ?thesis by auto
  qed (use assms in auto)
qed

lemma failMigration_fields:
  "Status (job (failMigration msg s)) = MigrationStatusFailed"
  "metrics (failMigration msg s) =
     (metrics s)\<lparr>FailedMigrations := FailedMigrations (metrics s) + 1\<rparr>"
  "Duration (Details (job (failMigration msg s))) = Some (Sub (clock s) (StartTime (job s)))"
  by (simp_all add: failMigration_def Let_def)

lemma completeMigration_fields:
  "Status (job (completeMigration s)) = MigrationStatusCompleted"
  "Duration (Details (job (completeMigration s))) = Some (Sub (clock s) (StartTime (job s)))"
  "TotalMigrations (metrics (completeMigration s)) = TotalMigrations (metrics s) + 1"
  "SuccessfulMigrations (metrics (completeMigration s)) = SuccessfulMigrations (metrics s) + 1"
  "FailedMigrations (metrics (completeMigration s)) = FailedMigrations (metrics s)"
  "AverageDuration (metrics (completeMigration s)) =
     (if 0 <s TotalMigrations (metrics s) + 1
      then div64 (AverageDuration (metrics s) * (TotalMigrations (metrics s) + 1 - 1) +
                    Sub (clock s) (StartTime (job s)))
             (TotalMigrations (metrics s) + 1)
      else AverageDuration (metrics s))"
  by (simp_all add: completeMigration_def Let_def split: option.splits)


section \<open>Evaluating concrete runs\<close>

lemma float64_const_0: "float64_const 0 = Finite False 0"
  by (simp add: float64_const_def round64_def)

lemma float64_const_100: "float64_const 100 = Finite False 100"
  by code_simp

lemma savings_example:
  "savings \<lparr>CPUUsage = Finite False 2, MemoryUsage = 1000, Timestamp = t\<rparr>
           \<lparr>CPUUsage = Finite False 1, MemoryUsage = 600, Timestamp = u\<rparr> =
     (Finite False 50, Finite False 40)"
  by code_simp

lemma simulated_example:
  "simulated \<lparr>CPUUsage = Finite False 2, MemoryUsage = 1000, Timestamp = t\<rparr> u =
     \<lparr>CPUUsage = Finite False 1, MemoryUsage = 600, Timestamp = u\<rparr>"
  by code_simp

lemmas pipeline_defs =
  executeMigration_def updateJobStatus_def captureContainerStates_def
  createCheckpoint_def createOptimizedPod_def deleteOriginalPod_def
  collectPostMigrationMetrics_def fallback_def failMigration_def completeMigration_def
  invoke_def set_details_def details_def is_ok_def Sub_def Unix_def decimal_def digits.simps
  div64_def word_sless_alt Minute_def Second_def Let_def

lemmas started_defs =
  started_def StartMigration_def NewMigrationController_def request1_def float64_const_0

lemmas state_defs = state1_def state2_def job1_def job2_def request1_def request2_def

lemma reachable_started: "reachable started"
  unfolding started_def by (rule reachable.request[OF reachable.created])

lemma reachable_goroutine: "reachable mc \<Longrightarrow> reachable (goroutine k p mc)"
  unfolding goroutine_def by (intro reachable.run)

lemma started_metrics:
  "mc_metrics started =
     \<lparr>TotalMigrations = 0, SuccessfulMigrations = 0, FailedMigrations = 0,
      AverageDuration = 0, CPUSavings = Finite False 0, MemorySavings = Finite False 0\<rparr>"
  by (simp add: started_defs Let_def)

lemma job1_started:
  "objects started 0 = Some job1"
  "goroutines started 0 = Some (Dispatch, 1700000000000000200)"
  "view started 0 job1 1700000000000000200 = state1"
  by (simp_all add: started_defs job1_def state1_def view_def Minute_def Second_def Let_def)

lemma job2_started:
  "objects (snd (snd (StartMigration request2 ''0f8fad5b-d9cb-469f-a165-70867728950e'' 100 100
      (NewMigrationController 1700000000000000000)))) 0 = Some job2"
  by (simp add: StartMigration_def NewMigrationController_def request2_def request1_def job2_def
      job1_def Second_def Let_def)

lemma goroutine_started:
  "goroutine k 0 started = commit 0 (Done, executeMigration k state1) started"
  using goroutine_executeMigration[OF job1_started(1,2), of k] by (simp add: job1_started(3))

lemma status_writes_simps [simp]:
  "status_writes [] = []"
  "status_writes (WriteStatus st # evs) = st # status_writes evs"
  "status_writes (WriteEnd t d # evs) = status_writes evs"
  "status_writes (Invoke c t ok # evs) = status_writes evs"
  "status_writes (Sleep n # evs) = status_writes evs"
  "status_writes (evs @ evs') = status_writes evs @ status_writes evs'"
  by (simp_all add: status_writes_def)

lemma end_writes_simps [simp]:
  "end_writes [] = []"
  "end_writes (WriteStatus st # evs) = end_writes evs"
  "end_writes (WriteEnd t d # evs) = (t, d) # end_writes evs"
  "end_writes (Invoke c t ok # evs) = end_writes evs"
  "end_writes (Sleep n # evs) = end_writes evs"
  "end_writes (evs @ evs') = end_writes evs @ end_writes evs'"
  by (simp_all add: end_writes_def)

lemma effect_no_writes:
  "\<forall>e \<in> set evs. effect e \<Longrightarrow> status_writes evs = [] \<and> end_writes evs = []"
proof (induction evs)
  case Nil
  show ?case by simp
next
  case (Cons e evs)
  then show ?case by (cases e) simp_all
qed


lemma new_events_eq: "trace s' = trace s @ evs \<Longrightarrow> new_events s s' = evs"
  by (simp add: new_events_def)


lemma failed_state:
  "executeMigration no_pod state1 =
     \<lparr>job = job1
        \<lparr>Status := MigrationStatusFailed,
         Details := (Details job1)
           \<lparr>EndTime := Some 1700000000001000200, Duration := Some 1000100\<rparr>\<rparr>,
      metrics =
        \<lparr>TotalMigrations = 0, SuccessfulMigrations = 0, FailedMigrations = 1,
         AverageDuration = 0, CPUSavings = Finite False 0, MemorySavings = Finite False 0\<rparr>,
      checkpointSize = ''1Gi'', clock = 1700000000001000200,
      trace =
        [WriteStatus MigrationStatusPending,
         WriteStatus MigrationStatusRunning,
         Invoke CallGetPod 1700000000001000200 False,
         WriteStatus MigrationStatusFailed,
         WriteEnd 1700000000001000200 1000100]\<rparr>"
  by (simp add: state_defs no_pod_def cluster_def pipeline_defs)

lemma completed_state:
  "executeMigration cluster state1 =
     \<lparr>job = job1
        \<lparr>Status := MigrationStatusCompleted,
         Details :=
           \<lparr>MigrationDetails.StartTime = 1700000000000000200,
            EndTime = Some 1700000032008000200, Duration = Some 32008000100,
            OriginalResources =
              Some \<lparr>CPUUsage = Finite False 2, MemoryUsage = 1000,
                    Timestamp = 1700000000002000200\<rparr>,
            OptimizedResources =
              Some \<lparr>CPUUsage = Finite False 1, MemoryUsage = 600,
                    Timestamp = 1700000032007000200\<rparr>,
            ContainerStates =
              [\<lparr>ContainerState.Name = ''trainer'', State = ''running'', RestartCount = 0,
                ShouldMigrate = True\<rparr>,
               \<lparr>ContainerState.Name = ''loader'', State = ''completed'', RestartCount = 0,
                ShouldMigrate = False\<rparr>],
            CheckpointPath = ''checkpoint-p1-1700000000'',
            PVClaimName = ''checkpoint-p1-1700000000'', NewPodName = ''p1-migrated''\<rparr>\<rparr>,
      metrics =
        \<lparr>TotalMigrations = 1, SuccessfulMigrations = 1, FailedMigrations = 0,
         AverageDuration = 32008000100, CPUSavings = Finite False 50,
         MemorySavings = Finite False 40\<rparr>,
      checkpointSize = ''1Gi'', clock = 1700000032008000200,
      trace =
        [WriteStatus MigrationStatusPending,
         WriteStatus MigrationStatusRunning,
         Invoke CallGetPod 1700000000001000200 True,
         Invoke CallGetPodContainerStates 1700000000002000200 True,
         Invoke CallGetPodMetrics 1700000000003000200 True,
         Invoke CallCreatePersistentVolumeClaim 1700000000004000200 True,
         Invoke CallGetPod 1700000000005000200 True,
         Invoke CallCreateOptimizedPod 1700000000006000200 True,
         Invoke CallWaitForPodReady 1700000002006000200 True,
         Invoke CallDeletePod 1700000002007000200 True,
         Sleep 30000000000,
         Invoke CallGetPodMetrics 1700000032008000200 True,
         WriteStatus MigrationStatusCompleted,
         WriteEnd 1700000032008000200 32008000100]\<rparr>"
  by (simp add: state_defs cluster_def pipeline_defs savings_example)


lemma flaky_state:
  "executeMigration flaky state1 =
     \<lparr>job = job1
        \<lparr>Status := MigrationStatusCompleted,
         Details :=
           \<lparr>MigrationDetails.StartTime = 1700000000000000200,
            EndTime = Some 1700000032008000200, Duration = Some 32008000100,
            OriginalResources =
              Some \<lparr>CPUUsage = Finite False 2, MemoryUsage = 1000,
                    Timestamp = 1700000000002000200\<rparr>,
            OptimizedResources =
              Some \<lparr>CPUUsage = Finite False 1, MemoryUsage = 600,
                    Timestamp = 1700000032008000200\<rparr>,
            ContainerStates =
              [\<lparr>ContainerState.Name = ''trainer'', State = ''running'', RestartCount = 0,
                ShouldMigrate = True\<rparr>,
               \<lparr>ContainerState.Name = ''loader'', State = ''completed'', RestartCount = 0,
                ShouldMigrate = False\<rparr>],
            CheckpointPath = ''checkpoint-p1-1700000000'',
            PVClaimName = ''checkpoint-p1-1700000000'', NewPodName = ''p1-migrated''\<rparr>\<rparr>,
      metrics =
        \<lparr>TotalMigrations = 1, SuccessfulMigrations = 1, FailedMigrations = 0,
         AverageDuration = 32008000100, CPUSavings = Finite False 50,
         MemorySavings = Finite False 40\<rparr>,
      checkpointSize = ''1Gi'', clock = 1700000032008000200,
      trace =
        [WriteStatus MigrationStatusPending,
         WriteStatus MigrationStatusRunning,
         Invoke CallGetPod 1700000000001000200 True,
         Invoke CallGetPodContainerStates 1700000000002000200 True,
         Invoke CallGetPodMetrics 1700000000003000200 True,
         Invoke CallCreatePersistentVolumeClaim 1700000000004000200 True,
         Invoke CallGetPod 1700000000005000200 True,
         Invoke CallCreateOptimizedPod 1700000000006000200 True,
         Invoke CallWaitForPodReady 1700000002006000200 True,
         Invoke CallDeletePod 1700000002007000200 False,
         Sleep 30000000000,
         Invoke CallGetPodMetrics 1700000032008000200 False,
         WriteStatus MigrationStatusCompleted,
         WriteEnd 1700000032008000200 32008000100]\<rparr>"
  by (simp add: state_defs flaky_def cluster_def pipeline_defs simulated_example savings_example)


lemma started_fields:
  "allocated started = 1" "now started = 1700000000000000200"
  "mc_checkpointSize started = ''1Gi''"
  by (simp_all add: started_defs Let_def)

lemmas three_defs = three_jobs_def StartMigration_fields goroutine_started failed_state
    started_fields request3_def request1_def Let_def Minute_def Second_def

lemma three_jobs_fields:
  "objects three_jobs 1 =
     Some \<lparr>ID = ''migration-7c9e6679'', Request = request1, Status = MigrationStatusPending,
       Details =
         \<lparr>MigrationDetails.StartTime = 1700000000000000400, EndTime = None,
            Duration = None, OriginalResources = None, OptimizedResources = None,
            ContainerStates = [], CheckpointPath = [], PVClaimName = [], NewPodName = []\<rparr>,
       StartTime = 1700000000000000300, ctx = 1700000600000000200\<rparr>"
  "objects three_jobs 2 =
     Some \<lparr>ID = ''migration-16fd2706'', Request = request3, Status = MigrationStatusPending,
       Details =
         \<lparr>MigrationDetails.StartTime = 1700000000000000800, EndTime = None,
            Duration = None, OriginalResources = None, OptimizedResources = None,
            ContainerStates = [], CheckpointPath = [], PVClaimName = [], NewPodName = []\<rparr>,
       StartTime = 1700000000000000500, ctx = 1700000600000000400\<rparr>"
  "goroutines three_jobs 1 = Some (Dispatch, 1700000000000000400)"
  "goroutines three_jobs 2 = Some (Dispatch, 1700000000000000800)"
  "mc_metrics three_jobs =
     \<lparr>TotalMigrations = 0, SuccessfulMigrations = 0, FailedMigrations = 1,
        AverageDuration = 0, CPUSavings = Finite False 0, MemorySavings = Finite False 0\<rparr>"
  "mc_checkpointSize three_jobs = ''1Gi''"
  "events three_jobs 1 = [WriteStatus MigrationStatusPending]"
  "events three_jobs 2 = [WriteStatus MigrationStatusPending]"
  by (simp_all add: three_defs)

lemma six_steps_eq:
  assumes "objects mc p = Some j" and "goroutines mc p = Some (Dispatch, t)"
  shows "six_steps k p mc =
    commit p (advance k (advance k (advance k (advance k (advance k (advance k
      (Dispatch, view mc p j t))))))) mc"
proof -
  let ?x = "(Dispatch, view mc p j t)"
  have c: "checkpointSize (snd (advance k x)) = checkpointSize (snd x)" for x
    by (cases x) (simp add: advance_checkpointSize')
  have 1: "step k p mc = commit p (advance k ?x) mc"
    using assms by (simp add: step_def)
  show ?thesis
    unfolding six_steps_def 1
    by (simp add: step_commit' c del: advance.simps)
qed

lemma goroutine_six_steps: "step k p (six_steps k p mc) = goroutine k p mc"
  by (simp add: goroutine_def six_steps_def)

lemma first_six:
  "six_steps cluster 1 three_jobs =
     commit 1
      (Complete,
       \<lparr>job =
          \<lparr>ID = ''migration-7c9e6679'', Request = request1,
             Status = MigrationStatusRunning,
             Details =
               \<lparr>MigrationDetails.StartTime = 1700000000000000400,
                  EndTime = None, Duration = None,
                  OriginalResources =
                    Some \<lparr>CPUUsage = Finite False 2, MemoryUsage = 1000,
                          Timestamp = 1700000000002000400\<rparr>,
                  OptimizedResources =
                    Some \<lparr>CPUUsage = Finite False 1, MemoryUsage = 600,
                          Timestamp = 1700000032007000400\<rparr>,
                  ContainerStates =
                    [\<lparr>ContainerState.Name = ''trainer'', State = ''running'',
                        RestartCount = 0, ShouldMigrate = True\<rparr>,
                     \<lparr>ContainerState.Name = ''loader'', State = ''completed'',
                        RestartCount = 0, ShouldMigrate = False\<rparr>],
                  CheckpointPath = ''checkpoint-p1-1700000000'',
                  PVClaimName = ''checkpoint-p1-1700000000'',
                  NewPodName = ''p1-migrated''\<rparr>,
             StartTime = 1700000000000000300, ctx = 1700000600000000200\<rparr>,
          metrics =
            \<lparr>TotalMigrations = 0, SuccessfulMigrations = 0, FailedMigrations = 1,
               AverageDuration = 0, CPUSavings = Finite False 0,
               MemorySavings = Finite False 0\<rparr>,
          checkpointSize = ''1Gi'', clock = 1700000032008000400,
          trace =
            [WriteStatus MigrationStatusPending,
             WriteStatus MigrationStatusRunning,
             Invoke CallGetPod 1700000000001000400 True,
             Invoke CallGetPodContainerStates 1700000000002000400 True,
             Invoke CallGetPodMetrics 1700000000003000400 True,
             Invoke CallCreatePersistentVolumeClaim 1700000000004000400 True,
             Invoke CallGetPod 1700000000005000400 True,
             Invoke CallCreateOptimizedPod 1700000000006000400 True,
             Invoke CallWaitForPodReady 1700000002006000400 True,
             Invoke CallDeletePod 1700000002007000400 True,
             Sleep 30000000000,
             Invoke CallGetPodMetrics 1700000032008000400 True]\<rparr>)
      three_jobs"
  apply (subst six_steps_eq[OF three_jobs_fields(1,3)])
  apply (simp add: view_def three_jobs_fields request1_def cluster_def pipeline_defs
      del: One_nat_def)
  done

lemma first_six_fields:
  "objects (six_steps cluster 1 three_jobs) 2 =
     Some \<lparr>ID = ''migration-16fd2706'', Request = request3,
                Status = MigrationStatusPending,
                Details =
                  \<lparr>MigrationDetails.StartTime = 1700000000000000800, EndTime = None,
                     Duration = None, OriginalResources = None, OptimizedResources = None,
                     ContainerStates = [], CheckpointPath = [], PVClaimName = [],
                     NewPodName = []\<rparr>,
                StartTime = 1700000000000000500, ctx = 1700000600000000400\<rparr>"
  "goroutines (six_steps cluster 1 three_jobs) 2 = Some (Dispatch, 1700000000000000800)"
  "goroutines (six_steps cluster 1 three_jobs) 1 = Some (Complete, 1700000032008000400)"
  "mc_metrics (six_steps cluster 1 three_jobs) =
     \<lparr>TotalMigrations = 0, SuccessfulMigrations = 0, FailedMigrations = 1,
        AverageDuration = 0, CPUSavings = Finite False 0, MemorySavings = Finite False 0\<rparr>"
  "mc_checkpointSize (six_steps cluster 1 three_jobs) = ''1Gi''"
  "events (six_steps cluster 1 three_jobs) 2 = [WriteStatus MigrationStatusPending]"
  "map_option Status (objects (six_steps cluster 1 three_jobs) 1) = Some MigrationStatusRunning"
  "map_option StartTime (objects (six_steps cluster 1 three_jobs) 1) =
     Some 1700000000000000300"
  by (simp_all add: first_six three_jobs_fields del: One_nat_def)

lemma overlapping_eq:
  "overlapping =
     commit 2
       (Done, executeMigration cluster
          (view (six_steps cluster 1 three_jobs) 2
             \<lparr>ID = ''migration-16fd2706'', Request = request3,
                Status = MigrationStatusPending,
                Details =
                  \<lparr>MigrationDetails.StartTime = 1700000000000000800, EndTime = None,
                     Duration = None, OriginalResources = None, OptimizedResources = None,
                     ContainerStates = [], CheckpointPath = [], PVClaimName = [],
                     NewPodName = []\<rparr>,
                StartTime = 1700000000000000500, ctx = 1700000600000000400\<rparr>
             1700000000000000800))
       (six_steps cluster 1 three_jobs)"
  unfolding overlapping_def goroutine_six_steps
  by (rule goroutine_executeMigration) (rule first_six_fields)+

lemma second_run:
  "Status (job (executeMigration cluster
          (view (six_steps cluster 1 three_jobs) 2
             \<lparr>ID = ''migration-16fd2706'', Request = request3,
                Status = MigrationStatusPending,
                Details =
                  \<lparr>MigrationDetails.StartTime = 1700000000000000800, EndTime = None,
                     Duration = None, OriginalResources = None, OptimizedResources = None,
                     ContainerStates = [], CheckpointPath = [], PVClaimName = [],
                     NewPodName = []\<rparr>,
                StartTime = 1700000000000000500, ctx = 1700000600000000400\<rparr>
             1700000000000000800))) = MigrationStatusCompleted"
  "TotalMigrations (metrics (executeMigration cluster
          (view (six_steps cluster 1 three_jobs) 2
             \<lparr>ID = ''migration-16fd2706'', Request = request3,
                Status = MigrationStatusPending,
                Details =
                  \<lparr>MigrationDetails.StartTime = 1700000000000000800, EndTime = None,
                     Duration = None, OriginalResources = None, OptimizedResources = None,
                     ContainerStates = [], CheckpointPath = [], PVClaimName = [],
                     NewPodName = []\<rparr>,
                StartTime = 1700000000000000500, ctx = 1700000600000000400\<rparr>
             1700000000000000800))) = 1"
  "SuccessfulMigrations (metrics (executeMigration cluster
          (view (six_steps cluster 1 three_jobs) 2
             \<lparr>ID = ''migration-16fd2706'', Request = request3,
                Status = MigrationStatusPending,
                Details =
                  \<lparr>MigrationDetails.StartTime = 1700000000000000800, EndTime = None,
                     Duration = None, OriginalResources = None, OptimizedResources = None,
                     ContainerStates = [], CheckpointPath = [], PVClaimName = [],
                     NewPodName = []\<rparr>,
                StartTime = 1700000000000000500, ctx = 1700000600000000400\<rparr>
             1700000000000000800))) = 1"
  "FailedMigrations (metrics (executeMigration cluster
          (view (six_steps cluster 1 three_jobs) 2
             \<lparr>ID = ''migration-16fd2706'', Request = request3,
                Status = MigrationStatusPending,
                Details =
                  \<lparr>MigrationDetails.StartTime = 1700000000000000800, EndTime = None,
                     Duration = None, OriginalResources = None, OptimizedResources = None,
                     ContainerStates = [], CheckpointPath = [], PVClaimName = [],
                     NewPodName = []\<rparr>,
                StartTime = 1700000000000000500, ctx = 1700000600000000400\<rparr>
             1700000000000000800))) = 1"
  "AverageDuration (metrics (executeMigration cluster
          (view (six_steps cluster 1 three_jobs) 2
             \<lparr>ID = ''migration-16fd2706'', Request = request3,
                Status = MigrationStatusPending,
                Details =
                  \<lparr>MigrationDetails.StartTime = 1700000000000000800, EndTime = None,
                     Duration = None, OriginalResources = None, OptimizedResources = None,
                     ContainerStates = [], CheckpointPath = [], PVClaimName = [],
                     NewPodName = []\<rparr>,
                StartTime = 1700000000000000500, ctx = 1700000600000000400\<rparr>
             1700000000000000800))) = 32007000300"
  by (simp add: view_def first_six_fields del: One_nat_def,
      simp add: request3_def request1_def cluster_def pipeline_defs)+

lemma overlapping_fields:
  "map_option Status (objects overlapping 2) = Some MigrationStatusCompleted"
  "map_option Status (objects overlapping 1) = Some MigrationStatusRunning"
  "map_option StartTime (objects overlapping 1) = Some 1700000000000000300"
  "goroutines overlapping 1 = Some (Complete, 1700000032008000400)"
  "TotalMigrations (mc_metrics overlapping) = 1"
  "SuccessfulMigrations (mc_metrics overlapping) = 1"
  "FailedMigrations (mc_metrics overlapping) = 1"
  "AverageDuration (mc_metrics overlapping) = 32007000300"
  by (simp_all add: overlapping_eq second_run first_six_fields del: One_nat_def)

lemma reachable_overlapping: "reachable overlapping"
  unfolding overlapping_def six_steps_def three_jobs_def
  by (intro reachable.run reachable.request reachable_goroutine reachable_started)

lemma last_step:
  "Option.bind (objects (step cluster 1 overlapping) 1) (\<lambda>j. Duration (Details j)) =
     Some 32008000100"
proof -
  obtain j where o: "objects overlapping 1 = Some j"
    and j: "StartTime j = 1700000000000000300"
    using overlapping_fields(3) by auto
  show ?thesis
    by (simp add: step_eq[OF o overlapping_fields(4)] completeMigration_fields j Sub_def
        del: One_nat_def)
qed


lemma completed_run:
  "objects (goroutine cluster 0 started) 0 = Some (job (executeMigration cluster state1))"
  "events (goroutine cluster 0 started) 0 = trace (executeMigration cluster state1)"
  "mc_metrics (goroutine cluster 0 started) = metrics (executeMigration cluster state1)"
  by (simp_all add: goroutine_started)

lemma sint_diff_nonneg:
  fixes a b :: int64
  assumes "0 \<le> sint a" and "0 \<le> sint b"
  shows "sint (a - b) = sint a - sint b"
proof -
  have "sint a < 2 ^ 63" "sint b < 2 ^ 63"
    using sint_lt[of a] sint_lt[of b] by simp_all
  with assms have "- (2 ^ 63) \<le> sint a - sint b" "sint a - sint b < 2 ^ 63"
    by simp_all
  then have "signed_take_bit 63 (sint a - sint b) = sint a - sint b"
    by (simp add: signed_take_bit_int_eq_self)
  then show ?thesis
    by (simp add: sint_word_ariths)
qed

lemma float64_const_half: "float64_const (1 / 2) = Finite False (1 / 2)"
  by code_simp


lemma started_registry:
  "migrations started ''migration-0f8fad5b'' = Some 0"
  "objects started 0 = Some job1"
  by (simp_all add: started_defs job1_def Minute_def Second_def Let_def)

lemma StartMigration_result:
  "fst (StartMigration req uuid d1 d2 mc) =
     Inr \<lparr>MigrationID = ''migration-'' @ take 8 uuid,
          MigrationResponse.Status = MigrationStatusPending, Message = ''Migration started'',
          MigrationResponse.Details =
            \<lparr>MigrationDetails.StartTime = now mc + int d1 + int d2, EndTime = None,
               Duration = None, OriginalResources = None, OptimizedResources = None,
               ContainerStates = [], CheckpointPath = [], PVClaimName = [],
               NewPodName = []\<rparr>\<rparr>"
  "fst (snd (StartMigration req uuid d1 d2 mc)) = allocated mc"
  by (simp_all add: StartMigration_def Let_def)

section \<open>The samples of a run\<close>

lemma captureContainerStates_sample:
  assumes "captureContainerStates k s = (Inr u, s1)"
  shows "\<exists>t1 t2 t ok sample.
      trace s1 = trace s @ [Invoke CallGetPod t1 True, Invoke CallGetPodContainerStates t2 True,
                            Invoke CallGetPodMetrics t ok] \<and>
      OriginalResources (details s1) = Some sample \<and>
      (\<not> ok \<longrightarrow> sample = \<lparr>CPUUsage = Finite False 0, MemoryUsage = 0, Timestamp = t\<rparr>)"
  using assms
  by (auto simp: captureContainerStates_def invoke_eq set_details_def details_def Let_def
      float64_const_0 split: prod.splits sum.splits)

lemma createCheckpoint_sample:
  "createCheckpoint k s = (r, s') \<Longrightarrow>
     OriginalResources (details s') = OriginalResources (details s) \<and>
     (\<exists>evs. trace s' = trace s @ evs)"
  by (auto simp: createCheckpoint_def invoke_eq details_def Let_def split: prod.splits sum.splits)

lemma createOptimizedPod_sample:
  "createOptimizedPod k pvc s = (r, s') \<Longrightarrow>
     OriginalResources (details s') = OriginalResources (details s) \<and>
     (\<exists>evs. trace s' = trace s @ evs)"
  by (auto simp: createOptimizedPod_def invoke_eq set_details_def details_def Let_def
      split: prod.splits sum.splits)

lemma deleteOriginalPod_sample:
  "deleteOriginalPod k s = (r, s') \<Longrightarrow>
     OriginalResources (details s') = OriginalResources (details s) \<and>
     (\<exists>evs. trace s' = trace s @ evs)"
  by (auto simp: deleteOriginalPod_def invoke_eq details_def Let_def split: prod.splits sum.splits)

lemma collectPostMigrationMetrics_sample:
  "collectPostMigrationMetrics k s = (r, s') \<Longrightarrow>
     OriginalResources (details s') = OriginalResources (details s) \<and>
     (OriginalResources (details s) \<noteq> None \<longrightarrow> OptimizedResources (details s') \<noteq> None) \<and>
     (\<exists>evs. trace s' = trace s @ evs)"
  by (auto simp: collectPostMigrationMetrics_def fallback_def invoke_eq set_details_def
      details_def Let_def split: prod.splits sum.splits option.splits if_splits)

lemma Status_failMigration [simp]:
  "Status (job (failMigration msg s)) = MigrationStatusFailed"
  by (simp add: failMigration_def Let_def)

lemma executeMigration_samples:
  assumes "Status (job (executeMigration k s)) = MigrationStatusCompleted"
  shows "\<exists>s1 s6 evs.
      captureContainerStates k (updateJobStatus MigrationStatusRunning s) = (Inr (), s1) \<and>
      executeMigration k s = completeMigration s6 \<and>
      OriginalResources (details s6) = OriginalResources (details s1) \<and>
      (OriginalResources (details s1) \<noteq> None \<longrightarrow> OptimizedResources (details s6) \<noteq> None) \<and>
      trace s6 = trace s1 @ evs"
proof -
  let ?s0 = "updateJobStatus MigrationStatusRunning s"
  obtain r1 s1 where c1: "captureContainerStates k ?s0 = (r1, s1)" by fastforce
  show ?thesis
  proof (cases r1)
    case (Inl err)
    with c1 assms show ?thesis by (simp add: executeMigration_def Let_def)
  next
    case r1: (Inr u1)
    obtain r2 s2 where c2: "(if PreservePV (Request (job s1))
            then (case createCheckpoint k s1 of
                    (Inl err, s3) \<Rightarrow> (Inl err, s3)
                  | (Inr checkpointPVC, s3) \<Rightarrow>
                      (Inr checkpointPVC,
                       set_details (\<lambda>d. d\<lparr>CheckpointPath := checkpointPVC,
                                         PVClaimName := checkpointPVC\<rparr>) s3))
            else (Inr [], s1)) = (r2, s2)" by fastforce
    have k2: "OriginalResources (details s2) = OriginalResources (details s1) \<and>
        (\<exists>evs. trace s2 = trace s1 @ evs)"
    proof (cases "PreservePV (Request (job s1))")
      case False
      with c2 show ?thesis by simp
    next
      case True
      obtain r s' where cc: "createCheckpoint k s1 = (r, s')" by fastforce
      from createCheckpoint_sample[OF cc] c2 True cc show ?thesis
        by (cases r) (auto simp: set_details_def details_def)
    qed
    show ?thesis
    proof (cases r2)
      case (Inl err)
      with c1 r1 c2 assms show ?thesis by (simp add: executeMigration_def Let_def)
    next
      case r2: (Inr pvc)
      obtain r3 s3 where c3: "createOptimizedPod k pvc s2 = (r3, s3)" by fastforce
      note k3 = createOptimizedPod_sample[OF c3]
      show ?thesis
      proof (cases r3)
        case (Inl err)
        with c1 r1 c2 r2 c3 assms show ?thesis by (simp add: executeMigration_def Let_def)
      next
        case r3: (Inr u3)
        obtain r4 s4 where c4: "deleteOriginalPod k s3 = (r4, s4)" by fastforce
        obtain r5 s5 where c5: "collectPostMigrationMetrics k s4 = (r5, s5)" by fastforce
        note k4 = deleteOriginalPod_sample[OF c4]
        note k5 = collectPostMigrationMetrics_sample[OF c5]
        have fin: "executeMigration k s = completeMigration s5"
          using c1 r1 c2 r2 c3 r3 c4 c5 by (simp add: executeMigration_def Let_def)
        from k2 k3 k4 k5 obtain evs where "trace s5 = trace s1 @ evs"
          by auto
        moreover from k2 k3 k4 k5
        have "OriginalResources (details s5) = OriginalResources (details s1)"
          "OriginalResources (details s1) \<noteq> None \<longrightarrow> OptimizedResources (details s5) \<noteq> None"
          by simp_all
        moreover from c1 r1 have "captureContainerStates k ?s0 = (Inr (), s1)" by simp
        ultimately show ?thesis using fin by blast
      qed
    qed
  qed
qed

lemma division_by_zero:
  "\<not> is_finite (fmul (fdiv x (Finite s 0)) (Finite False 100))"
  by (cases x) auto

lemma float64_of_int64_0: "float64_of_int64 0 = Finite False 0"
  by (simp add: float64_of_int64_def round64_def)

lemma trace_completeMigration:
  "trace (completeMigration s) =
     trace s @ [WriteStatus MigrationStatusCompleted,
                WriteEnd (clock s) (Sub (clock s) (StartTime (job s)))]"
  "OriginalResources (details (completeMigration s)) = OriginalResources (details s)"
  "OptimizedResources (details (completeMigration s)) = OptimizedResources (details s)"
  by (simp_all add: completeMigration_def details_def Let_def)

lemma savings_zero:
  "savings \<lparr>CPUUsage = float64_const 0, MemoryUsage = 0, Timestamp = t\<rparr>
           \<lparr>CPUUsage = Finite False 1, MemoryUsage = 600, Timestamp = u\<rparr> =
     (Infinity True, Infinity True)"
  by code_simp

lemma unmetered_run:
  "Status (job (executeMigration unmetered state1)) = MigrationStatusCompleted"
  "new_events state1 (executeMigration unmetered state1) =
     [WriteStatus MigrationStatusRunning,
      Invoke CallGetPod 1700000000001000200 True,
      Invoke CallGetPodContainerStates 1700000000002000200 True,
      Invoke CallGetPodMetrics 1700000000003000200 False,
      Invoke CallCreatePersistentVolumeClaim 1700000000004000200 True,
      Invoke CallGetPod 1700000000005000200 True,
      Invoke CallCreateOptimizedPod 1700000000006000200 True,
      Invoke CallWaitForPodReady 1700000002006000200 True,
      Invoke CallDeletePod 1700000002007000200 True, Sleep 30000000000,
      Invoke CallGetPodMetrics 1700000032008000200 True,
      WriteStatus MigrationStatusCompleted,
      WriteEnd 1700000032008000200 32008000100]"
  "CPUSavings (metrics (executeMigration unmetered state1)) = Infinity True"
  "MemorySavings (metrics (executeMigration unmetered state1)) = Infinity True"
  by (simp_all add: new_events_def state_defs unmetered_def cluster_def pipeline_defs
      savings_zero)


section \<open>The claims\<close>




text \<open>
  C2. For every job of every reachable state of the controller, whatever the
  interleaving of the goroutines, the statuses written to it so far are \<open>pending\<close>
  alone, or \<open>pending\<close> and \<open>running\<close>, or \<open>pending\<close>, \<open>running\<close> and then exactly one of
  \<open>completed\<close> and \<open>failed\<close>; its status is the last one written. So the status starts
  at pending, moves to running at dispatch, never returns to pending, and nothing is
  written over a terminal status.
\<close>

theorem status_history:
  assumes "reachable mc" and "objects mc p = Some j"
  shows "status_writes (events mc p) \<in>
           {[MigrationStatusPending],
            [MigrationStatusPending, MigrationStatusRunning],
            [MigrationStatusPending, MigrationStatusRunning, MigrationStatusCompleted],
            [MigrationStatusPending, MigrationStatusRunning, MigrationStatusFailed]} \<and>
         Status j = last (status_writes (events mc p))"
proof -
  from reachable_job[OF assms] obtain pt t where
    g: "goroutines mc p = Some (pt, t)" and l: "life pt (view mc p j t)"
    by blast
  consider "pt = Dispatch" | "pt = Done" | "pt \<noteq> Dispatch" "pt \<noteq> Done" by blast
  then show ?thesis
  proof cases
    case 1
    with l show ?thesis by (simp add: life_def)
  next
    case 2
    with l obtain evs u where e: "terminal (Status j)" "\<forall>e \<in> set evs. effect e"
      "events mc p =
         WriteStatus MigrationStatusPending # WriteStatus MigrationStatusRunning # evs @
           [WriteStatus (Status j), WriteEnd u (Sub u (StartTime j))]"
      by (auto simp: life_def)
    from effect_no_writes[OF e(2)] e(1,3) show ?thesis
      by (auto simp: terminal_def)
  next
    case 3
    with l obtain evs where e: "Status j = MigrationStatusRunning" "\<forall>e \<in> set evs. effect e"
      "events mc p =
         WriteStatus MigrationStatusPending # WriteStatus MigrationStatusRunning # evs"
      by (auto simp: life_def)
    from effect_no_writes[OF e(2)] e(1,3) show ?thesis
      by simp
  qed
qed

theorem status_history_witness:
  "reachable (goroutine cluster 0 started) \<and>
   (\<exists>j. objects (goroutine cluster 0 started) 0 = Some j \<and>
        Status j = MigrationStatusCompleted) \<and>
   status_writes (events (goroutine cluster 0 started) 0) =
     [MigrationStatusPending, MigrationStatusRunning, MigrationStatusCompleted]"
proof -
  have r: "reachable (goroutine cluster 0 started)"
    by (rule reachable_goroutine[OF reachable_started])
  obtain j where o: "objects (goroutine cluster 0 started) 0 = Some j"
    and j: "Status j = MigrationStatusCompleted"
    by (simp add: completed_run completed_state)
  from status_history[OF r o] r o j show ?thesis
    by auto
qed


text \<open>
  C3. In the completed transition, if both samples are present the two savings are set
  to \<open>(original - optimized) / original * 100\<close>, each operation rounded to float64;
  for memory the difference is taken in int64, where it is the difference of the integers
  whenever both readings are non-negative. With original 2.0 cores and 1000 bytes and
  optimized 1.0 core and 600 bytes the results are 50 and 40 exactly. If either sample
  is absent both savings keep the values they had.
\<close>

theorem savings_computed:
  "(\<forall>orig opt.
      OriginalResources (details s) = Some orig \<and> OptimizedResources (details s) = Some opt \<longrightarrow>
      CPUSavings (metrics (completeMigration s)) =
        fmul (fdiv (fsub (CPUUsage orig) (CPUUsage opt)) (CPUUsage orig)) (Finite False 100) \<and>
      MemorySavings (metrics (completeMigration s)) =
        fmul (fdiv (float64_of_int64 (MemoryUsage orig - MemoryUsage opt))
                (float64_of_int64 (MemoryUsage orig))) (Finite False 100) \<and>
      (0 \<le> sint (MemoryUsage orig) \<and> 0 \<le> sint (MemoryUsage opt) \<longrightarrow>
         sint (MemoryUsage orig - MemoryUsage opt) =
           sint (MemoryUsage orig) - sint (MemoryUsage opt)) \<and>
      (CPUUsage orig = Finite False 2 \<and> MemoryUsage orig = 1000 \<and>
       CPUUsage opt = Finite False 1 \<and> MemoryUsage opt = 600 \<longrightarrow>
         CPUSavings (metrics (completeMigration s)) = Finite False 50 \<and>
         MemorySavings (metrics (completeMigration s)) = Finite False 40)) \<and>
   (OriginalResources (details s) = None \<or> OptimizedResources (details s) = None \<longrightarrow>
      CPUSavings (metrics (completeMigration s)) = CPUSavings (metrics s) \<and>
      MemorySavings (metrics (completeMigration s)) = MemorySavings (metrics s))"
proof -
  have a: "CPUSavings (metrics (completeMigration s)) = fst (savings orig opt) \<and>
           MemorySavings (metrics (completeMigration s)) = snd (savings orig opt)"
    if "OriginalResources (details s) = Some orig" "OptimizedResources (details s) = Some opt"
    for orig opt
    using that by (simp add: completeMigration_def details_def Let_def)
  have b: "savings orig opt = (Finite False 50, Finite False 40)"
    if "CPUUsage orig = Finite False 2 \<and> MemoryUsage orig = 1000 \<and>
        CPUUsage opt = Finite False 1 \<and> MemoryUsage opt = 600" for orig opt
    using savings_example[of "Timestamp orig" "Timestamp opt"] that
    by (cases orig, cases opt) simp
  have c: "CPUSavings (metrics (completeMigration s)) = CPUSavings (metrics s) \<and>
      MemorySavings (metrics (completeMigration s)) = MemorySavings (metrics s)"
    if "OriginalResources (details s) = None \<or> OptimizedResources (details s) = None"
    using that by (auto simp: completeMigration_def details_def Let_def split: option.splits)
  show ?thesis
  proof (intro conjI allI impI)
    fix orig opt
    assume h: "OriginalResources (details s) = Some orig \<and>
        OptimizedResources (details s) = Some opt"
    then have a': "CPUSavings (metrics (completeMigration s)) = fst (savings orig opt)"
      "MemorySavings (metrics (completeMigration s)) = snd (savings orig opt)"
      using a by simp_all
    show "CPUSavings (metrics (completeMigration s)) =
        fmul (fdiv (fsub (CPUUsage orig) (CPUUsage opt)) (CPUUsage orig)) (Finite False 100)"
      by (simp add: a' savings_def float64_const_100)
    show "MemorySavings (metrics (completeMigration s)) =
        fmul (fdiv (float64_of_int64 (MemoryUsage orig - MemoryUsage opt))
                (float64_of_int64 (MemoryUsage orig))) (Finite False 100)"
      by (simp add: a' savings_def float64_const_100)
    show "sint (MemoryUsage orig - MemoryUsage opt) =
           sint (MemoryUsage orig) - sint (MemoryUsage opt)"
      if "0 \<le> sint (MemoryUsage orig) \<and> 0 \<le> sint (MemoryUsage opt)"
      using that by (simp add: sint_diff_nonneg)
    show "CPUSavings (metrics (completeMigration s)) = Finite False 50"
      if "CPUUsage orig = Finite False 2 \<and> MemoryUsage orig = 1000 \<and>
       CPUUsage opt = Finite False 1 \<and> MemoryUsage opt = 600"
      using b[OF that] by (simp add: a')
    show "MemorySavings (metrics (completeMigration s)) = Finite False 40"
      if "CPUUsage orig = Finite False 2 \<and> MemoryUsage orig = 1000 \<and>
       CPUUsage opt = Finite False 1 \<and> MemoryUsage opt = 600"
      using b[OF that] by (simp add: a')
  next
    assume "OriginalResources (details s) = None \<or> OptimizedResources (details s) = None"
    from c[OF this]
    show "CPUSavings (metrics (completeMigration s)) = CPUSavings (metrics s)"
      "MemorySavings (metrics (completeMigration s)) = MemorySavings (metrics s)"
      by simp_all
  qed
qed

theorem savings_computed_witness:
  "OriginalResources (details measured) =
     Some \<lparr>CPUUsage = Finite False 2, MemoryUsage = 1000, Timestamp = 1700000000002000200\<rparr> \<and>
   OptimizedResources (details measured) =
     Some \<lparr>CPUUsage = Finite False 1, MemoryUsage = 600, Timestamp = 1700000032007000200\<rparr> \<and>
   CPUSavings (metrics measured) = Finite False 0 \<and>
   CPUSavings (metrics (completeMigration measured)) = Finite False 50 \<and>
   MemorySavings (metrics (completeMigration measured)) = Finite False 40 \<and>
   OriginalResources (details state1) = None \<and>
   CPUSavings (metrics (completeMigration state1)) = CPUSavings (metrics state1) \<and>
   MemorySavings (metrics (completeMigration state1)) = MemorySavings (metrics state1)"
proof -
  have o: "OriginalResources (details measured) =
      Some \<lparr>CPUUsage = Finite False 2, MemoryUsage = 1000, Timestamp = 1700000000002000200\<rparr>"
    "OptimizedResources (details measured) =
      Some \<lparr>CPUUsage = Finite False 1, MemoryUsage = 600, Timestamp = 1700000032007000200\<rparr>"
    by (simp_all add: measured_def state1_def job1_def details_def)
  have z: "CPUSavings (metrics measured) = Finite False 0"
    by (simp add: measured_def state1_def)
  have n: "OriginalResources (details state1) = None"
    by (simp add: state1_def job1_def details_def)
  from savings_computed[of measured, THEN conjunct1, rule_format, OF conjI[OF o]]
  have "CPUUsage \<lparr>CPUUsage = Finite False 2, MemoryUsage = 1000,
                  Timestamp = 1700000000002000200\<rparr> = Finite False 2 \<and>
        MemoryUsage \<lparr>CPUUsage = Finite False 2, MemoryUsage = 1000,
                  Timestamp = 1700000000002000200\<rparr> = 1000 \<and>
        CPUUsage \<lparr>CPUUsage = Finite False 1, MemoryUsage = 600,
                  Timestamp = 1700000032007000200\<rparr> = Finite False 1 \<and>
        MemoryUsage \<lparr>CPUUsage = Finite False 1, MemoryUsage = 600,
                  Timestamp = 1700000032007000200\<rparr> = 600 \<longrightarrow>
      CPUSavings (metrics (completeMigration measured)) = Finite False 50 \<and>
      MemorySavings (metrics (completeMigration measured)) = Finite False 40"
    by blast
  then have a: "CPUSavings (metrics (completeMigration measured)) = Finite False 50 \<and>
      MemorySavings (metrics (completeMigration measured)) = Finite False 40"
    by simp
  from savings_computed[of state1, THEN conjunct2] n
  have b: "CPUSavings (metrics (completeMigration state1)) = CPUSavings (metrics state1) \<and>
      MemorySavings (metrics (completeMigration state1)) = MemorySavings (metrics state1)"
    by simp
  from o z n a b show ?thesis by simp
qed


text \<open>
  C4, where the claim fails. The same job goes through step 5 twice: against a cluster
  whose metrics are unavailable, and against one that measures 1.0 core and 600 bytes. The
  first sample is an estimate and the second a measurement, and the two jobs are equal in
  every field: no marker tells them apart.
\<close>

theorem estimate_unmarked:
  "last (trace (snd (collectPostMigrationMetrics flaky settled))) =
     Invoke CallGetPodMetrics 1700000032008000200 False \<and>
   last (trace (snd (collectPostMigrationMetrics metered settled))) =
     Invoke CallGetPodMetrics 1700000032008000200 True \<and>
   OptimizedResources (details (snd (collectPostMigrationMetrics flaky settled))) =
     Some \<lparr>CPUUsage = Finite False 1, MemoryUsage = 600, Timestamp = 1700000032008000200\<rparr> \<and>
   job (snd (collectPostMigrationMetrics flaky settled)) =
     job (snd (collectPostMigrationMetrics metered settled))"
  by (simp add: settled_def state_defs flaky_def metered_def cluster_def pipeline_defs
      simulated_example)

text \<open>
  C4 as amended. Step 5 returns no error. If the sampling of the new pod succeeded, the
  optimized sample is what the cluster returned. If it failed, or the name of the new pod
  is empty, and there is an original sample, the optimized sample is the original one with
  the cpu multiplied by 0.5 and the memory by 0.6, in float64 and truncated to int64, and
  with the time of the fallback: 2.0 cores and 1000 bytes give 1.0 core and 600 bytes. With
  no original sample the optimized sample stays as it was. A sample has three fields,
  \<open>CPUUsage\<close>, \<open>MemoryUsage\<close> and \<open>Timestamp\<close>: nothing in it says whether it was measured.
\<close>

theorem fallback_estimate:
  assumes "collectPostMigrationMetrics k s = (r, s')"
  shows "r = Inr () \<and> OriginalResources (details s') = OriginalResources (details s) \<and>
    (if last (trace s') = Invoke CallGetPodMetrics (clock s') True
     then \<exists>sample. OptimizedResources (details s') = Some sample \<and>
            snd (GetPodMetrics k (clock s + 30 * Second) (PodNamespace (Request (job s)))
                   (NewPodName (details s))) = Inr sample
     else OptimizedResources (details s') =
            (case OriginalResources (details s) of
               None \<Rightarrow> OptimizedResources (details s)
             | Some orig \<Rightarrow>
                 Some \<lparr>CPUUsage = fmul (CPUUsage orig) (Finite False (1 / 2)),
                       MemoryUsage =
                         int64_of_float64
                           (fmul (float64_of_int64 (MemoryUsage orig)) (float64_const (3 / 5))),
                       Timestamp = clock s'\<rparr>) \<and>
          (\<forall>orig. OriginalResources (details s) = Some orig \<and>
                  CPUUsage orig = Finite False 2 \<and> MemoryUsage orig = 1000 \<longrightarrow>
             OptimizedResources (details s') =
               Some \<lparr>CPUUsage = Finite False 1, MemoryUsage = 600, Timestamp = clock s'\<rparr>))"
proof -
  have ex: "fmul (Finite False 2) (Finite False (1 / 2)) = Finite False 1"
    "int64_of_float64 (fmul (float64_of_int64 1000) (float64_const (3 / 5))) = 600"
    "round64 False 1 = Finite False 1"
    by code_simp+
  from assms show ?thesis
    by (auto simp: collectPostMigrationMetrics_def invoke_def fallback_def set_details_def
        details_def is_ok_def Let_def simulated_def float64_const_half ex
        split: if_splits sum.splits option.splits prod.splits)
qed

theorem fallback_estimate_witness:
  "collectPostMigrationMetrics flaky settled =
     (Inr (), snd (collectPostMigrationMetrics flaky settled)) \<and>
   OriginalResources (details settled) =
     Some \<lparr>CPUUsage = Finite False 2, MemoryUsage = 1000, Timestamp = 1700000000002000200\<rparr> \<and>
   last (trace (snd (collectPostMigrationMetrics flaky settled))) =
     Invoke CallGetPodMetrics 1700000032008000200 False \<and>
   OptimizedResources (details (snd (collectPostMigrationMetrics flaky settled))) =
     Some \<lparr>CPUUsage = Finite False 1, MemoryUsage = 600, Timestamp = 1700000032008000200\<rparr>"
proof -
  have e: "collectPostMigrationMetrics flaky settled =
      (Inr (), snd (collectPostMigrationMetrics flaky settled))"
    by (simp add: prod_eq_iff collectPostMigrationMetrics_def Let_def
        split: prod.splits sum.splits)
  have t: "last (trace (snd (collectPostMigrationMetrics flaky settled))) =
      Invoke CallGetPodMetrics 1700000032008000200 False"
    "clock (snd (collectPostMigrationMetrics flaky settled)) = 1700000032008000200"
    by (simp_all add: settled_def state_defs flaky_def cluster_def pipeline_defs)
  have o: "OriginalResources (details settled) =
      Some \<lparr>CPUUsage = Finite False 2, MemoryUsage = 1000, Timestamp = 1700000000002000200\<rparr>"
    by (simp add: settled_def state_defs details_def)
  note f = fallback_estimate[OF e, THEN conjunct2, THEN conjunct2]
  have c: "last (trace (snd (collectPostMigrationMetrics flaky settled))) \<noteq>
      Invoke CallGetPodMetrics (clock (snd (collectPostMigrationMetrics flaky settled))) True"
    by (simp add: t)
  note g = f[unfolded if_not_P[OF c], THEN conjunct2, rule_format]
  from g o have "OptimizedResources (details (snd (collectPostMigrationMetrics flaky settled))) =
      Some \<lparr>CPUUsage = Finite False 1, MemoryUsage = 600, Timestamp = 1700000032008000200\<rparr>"
    by (simp add: t(2))
  with t(1) o e show ?thesis
    by blast
qed


text \<open>
  C5 (code defect). The claim: every terminal transition increments \<open>TotalMigrations\<close>
  once, together with \<open>SuccessfulMigrations\<close> on completion or \<open>FailedMigrations\<close> on
  failure. \<open>completeMigration\<close> does so; \<open>failMigration\<close> increments
  \<open>FailedMigrations\<close> only. Here the pod of the request does not exist: the job ends
  failed, the failure counter goes up by one and the total stays where it was.
\<close>

theorem failed_job_missing_from_total:
  "map_option Status (objects (goroutine no_pod 0 started) 0) = Some MigrationStatusFailed \<and>
   FailedMigrations (mc_metrics (goroutine no_pod 0 started)) =
     FailedMigrations (mc_metrics started) + 1 \<and>
   SuccessfulMigrations (mc_metrics (goroutine no_pod 0 started)) =
     SuccessfulMigrations (mc_metrics started) \<and>
   TotalMigrations (mc_metrics (goroutine no_pod 0 started)) =
     TotalMigrations (mc_metrics started)"
  by (simp add: goroutine_started failed_state started_metrics)


text \<open>
  C6, where the claim fails. The identifier of a job is \<open>migration-\<close> and the first eight
  characters of its UUID, and \<open>StartMigration\<close> stores the job under it without looking
  whether the identifier is taken. Here a second request gets a UUID that begins like
  the first: it returns no error, and the registry now holds the new job, for pod \<open>p2\<close>,
  where it held the job for pod \<open>p1\<close>.
\<close>

theorem duplicate_id_overwrites:
  "is_ok (fst resubmitted) \<and>
   migrations started ''migration-0f8fad5b'' = Some 0 \<and>
   migrations (snd (snd resubmitted)) ''migration-0f8fad5b'' = Some 1 \<and>
   map_option (\<lambda>j. PodName (Request j))
     (Option.bind (migrations started ''migration-0f8fad5b'') (objects started)) =
     Some ''p1'' \<and>
   map_option (\<lambda>j. PodName (Request j))
     (Option.bind (migrations (snd (snd resubmitted)) ''migration-0f8fad5b'')
        (objects (snd (snd resubmitted)))) = Some ''p2'' \<and>
   GetMigrationStatus ''migration-0f8fad5b'' (snd (snd resubmitted)) \<noteq>
     GetMigrationStatus ''migration-0f8fad5b'' started"
  by (simp add: resubmitted_def StartMigration_result StartMigration_fields started_registry
      started_fields GetMigrationStatus_def job1_def request1_def request3_def)

text \<open>
  C6 as amended. Registration never fails and never looks for a conflict: the job is stored
  under its identifier, whatever was stored there before, and a lookup by that
  identifier finds the new job from then on. The job is a new object: every job created
  before stays in memory as it was, with its goroutine and its events, and every other
  identifier refers to what it referred to.
\<close>

theorem registration_overwrites:
  assumes "reachable mc" and "StartMigration req uuid d1 d2 mc = (r, p, mc')"
  shows "is_ok r \<and> p = allocated mc \<and> objects mc p = None \<and>
    migrations mc' (''migration-'' @ take 8 uuid) = Some p \<and>
    (\<exists>j. objects mc' p = Some j \<and> ID j = ''migration-'' @ take 8 uuid \<and> Request j = req \<and>
         Status j = MigrationStatusPending \<and>
         GetMigrationStatus (''migration-'' @ take 8 uuid) mc' =
           Inr \<lparr>MigrationID = ''migration-'' @ take 8 uuid,
                MigrationResponse.Status = MigrationStatusPending,
                Message = ''Migration is pending'',
                MigrationResponse.Details = Details j\<rparr>) \<and>
    (\<forall>id. id \<noteq> ''migration-'' @ take 8 uuid \<longrightarrow> migrations mc' id = migrations mc id) \<and>
    (\<forall>q. q \<noteq> p \<longrightarrow>
         objects mc' q = objects mc q \<and> goroutines mc' q = goroutines mc q \<and>
         events mc' q = events mc q) \<and>
    mc_metrics mc' = mc_metrics mc"
proof -
  from assms(2) have r: "r = fst (StartMigration req uuid d1 d2 mc)"
    and p: "p = fst (snd (StartMigration req uuid d1 d2 mc))"
    and mc': "mc' = snd (snd (StartMigration req uuid d1 d2 mc))"
    by simp_all
  from well_formed_reachable[OF assms(1)] have "objects mc (allocated mc) = None"
    by (simp add: well_formed_def)
  then show ?thesis
    unfolding r p mc' StartMigration_result StartMigration_fields
    by (simp add: GetMigrationStatus_def)
qed

theorem registration_overwrites_witness:
  "reachable started \<and>
   (\<exists>r. resubmitted = (r, 1, snd (snd resubmitted)) \<and> is_ok r) \<and>
   objects started 0 = Some job1 \<and>
   objects (snd (snd resubmitted)) 0 = Some job1 \<and>
   migrations (snd (snd resubmitted)) ''migration-0f8fad5b'' = Some 1 \<and>
   map_option Request (objects (snd (snd resubmitted)) 1) = Some request3"
proof -
  have e: "resubmitted = (fst resubmitted, 1, snd (snd resubmitted))"
    by (simp add: resubmitted_def StartMigration_result started_fields prod_eq_iff)
  from registration_overwrites[OF reachable_started e[unfolded resubmitted_def]]
  show ?thesis
    using e by (auto simp: resubmitted_def[symmetric] reachable_started started_registry
        started_fields)
qed


text \<open>
  C7. If no fail-fast call returns an error, the job ends completed, after the
  deletion of the original pod has been called and the settle delay slept. And whenever
  a best-effort step has run, whatever it returned, the job ends completed and is counted
  as a success: a job that ends failed never got to a best-effort step.
\<close>

theorem best_effort_contained:
  "(\<not> list_ex fatal (new_events s (executeMigration k s)) \<longrightarrow>
      Status (job (executeMigration k s)) = MigrationStatusCompleted \<and>
      list_ex (is_call CallDeletePod) (new_events s (executeMigration k s)) \<and>
      Sleep (30 * Second) \<in> set (new_events s (executeMigration k s))) \<and>
   (list_ex best_effort (new_events s (executeMigration k s)) \<longrightarrow>
      Status (job (executeMigration k s)) = MigrationStatusCompleted \<and>
      SuccessfulMigrations (metrics (executeMigration k s)) =
        SuccessfulMigrations (metrics s) + 1 \<and>
      FailedMigrations (metrics (executeMigration k s)) = FailedMigrations (metrics s))"
proof -
  from executeMigration_summary[of k s] obtain T evs t where
    tr: "trace (executeMigration k s) =
       trace s @ WriteStatus MigrationStatusRunning # evs @
         [WriteStatus T, WriteEnd t (Sub t (StartTime (job s)))]"
    and st: "Status (job (executeMigration k s)) = T"
    and c: "T = MigrationStatusFailed \<and> evs \<noteq> [] \<and> fatal (last evs) \<and>
            \<not> list_ex best_effort evs \<or>
            T = MigrationStatusCompleted \<and> \<not> list_ex fatal evs \<and>
            list_ex (is_call CallDeletePod) evs \<and> Sleep (30 * Second) \<in> set evs \<and>
            SuccessfulMigrations (metrics (executeMigration k s)) =
              SuccessfulMigrations (metrics s) + 1 \<and>
            FailedMigrations (metrics (executeMigration k s)) = FailedMigrations (metrics s)"
    by blast
  have ne: "new_events s (executeMigration k s) =
      WriteStatus MigrationStatusRunning # evs @
         [WriteStatus T, WriteEnd t (Sub t (StartTime (job s)))]"
    by (rule new_events_eq) (simp add: tr)
  from c show ?thesis
  proof
    assume f: "T = MigrationStatusFailed \<and> evs \<noteq> [] \<and> fatal (last evs) \<and>
            \<not> list_ex best_effort evs"
    then have "last evs \<in> set evs" by simp
    with f have "list_ex fatal evs" by (auto simp: list_ex_iff)
    with f show ?thesis by (simp add: ne st)
  next
    assume "T = MigrationStatusCompleted \<and> \<not> list_ex fatal evs \<and>
            list_ex (is_call CallDeletePod) evs \<and> Sleep (30 * Second) \<in> set evs \<and>
            SuccessfulMigrations (metrics (executeMigration k s)) =
              SuccessfulMigrations (metrics s) + 1 \<and>
            FailedMigrations (metrics (executeMigration k s)) = FailedMigrations (metrics s)"
    then show ?thesis by (simp add: ne st)
  qed
qed

theorem best_effort_contained_witness:
  "\<not> list_ex fatal (new_events state1 (executeMigration flaky state1)) \<and>
   list_ex best_effort (new_events state1 (executeMigration flaky state1)) \<and>
   Invoke CallDeletePod 1700000002007000200 False
     \<in> set (new_events state1 (executeMigration flaky state1)) \<and>
   Invoke CallGetPodMetrics 1700000032008000200 False
     \<in> set (new_events state1 (executeMigration flaky state1)) \<and>
   Status (job (executeMigration flaky state1)) = MigrationStatusCompleted"
  using best_effort_contained[of state1 flaky]
  by (simp add: flaky_state new_events_def) (simp add: state1_def)




text \<open>
  C9. In every state of the controller the total equals the number of successes. And for
  every step a goroutine takes, in any interleaving with the others: if it is the failed
  transition of the job, the job goes from running to failed and the metrics change in
  \<open>FailedMigrations\<close> alone, which goes up by one: total, successes and average stay.
  If it is the completed transition, the job goes from running to completed, total and
  successes go up by one, failures stay, and the average becomes
  \<open>(average * (n - 1) + d) / n\<close>, with \<open>d\<close> the duration of that job and \<open>n\<close> the new total,
  which is the new number of successes. Any other step leaves the metrics as they are and
  makes no job terminal. So the average is over the successful jobs only.
\<close>

theorem average_counts_successful_only:
  assumes "reachable mc" and "objects mc p = Some j" and "goroutines mc p = Some (pt, t)"
  shows "TotalMigrations (mc_metrics mc) = SuccessfulMigrations (mc_metrics mc) \<and>
    TotalMigrations (mc_metrics (step k p mc)) = SuccessfulMigrations (mc_metrics (step k p mc)) \<and>
    (\<exists>j'. objects (step k p mc) p = Some j' \<and>
       (if \<exists>msg. pt = Fail msg
        then Status j = MigrationStatusRunning \<and> Status j' = MigrationStatusFailed \<and>
             mc_metrics (step k p mc) =
               (mc_metrics mc)\<lparr>FailedMigrations := FailedMigrations (mc_metrics mc) + 1\<rparr>
        else if pt = Complete
        then Status j = MigrationStatusRunning \<and> Status j' = MigrationStatusCompleted \<and>
             TotalMigrations (mc_metrics (step k p mc)) = TotalMigrations (mc_metrics mc) + 1 \<and>
             SuccessfulMigrations (mc_metrics (step k p mc)) =
               SuccessfulMigrations (mc_metrics mc) + 1 \<and>
             FailedMigrations (mc_metrics (step k p mc)) = FailedMigrations (mc_metrics mc) \<and>
             (\<exists>d. Duration (Details j') = Some d \<and>
                AverageDuration (mc_metrics (step k p mc)) =
                  (if 0 <s SuccessfulMigrations (mc_metrics (step k p mc))
                   then div64 (AverageDuration (mc_metrics mc) *
                                 (SuccessfulMigrations (mc_metrics (step k p mc)) - 1) + d)
                          (SuccessfulMigrations (mc_metrics (step k p mc)))
                   else AverageDuration (mc_metrics mc)))
        else mc_metrics (step k p mc) = mc_metrics mc \<and>
             (terminal (Status j') \<longleftrightarrow> pt = Done)))"
proof -
  let ?s = "view mc p j t"
  obtain pt' s' where a: "advance k (pt, ?s) = (pt', s')" by fastforce
  have st: "step k p mc = commit p (pt', s') mc"
    using step_eq[OF assms(2,3), of k] by (simp add: a)
  have inv: "TotalMigrations (mc_metrics mc) = SuccessfulMigrations (mc_metrics mc)"
    using well_formed_reachable[OF assms(1)] by (simp add: well_formed_def)
  have inv': "TotalMigrations (mc_metrics (step k p mc)) =
      SuccessfulMigrations (mc_metrics (step k p mc))"
    using well_formed_reachable[OF reachable.run[OF assms(1), of k p]]
    by (simp add: well_formed_def)
  from reachable_job[OF assms(1,2)] assms(3) have l: "life pt ?s" by auto
  have l': "life pt' s'" by (rule advance_life[OF l a])
  have o: "objects (step k p mc) p = Some (job s')" by (simp add: st)
  have m: "mc_metrics (step k p mc) = metrics s'" by (simp add: st)
  have main: "if \<exists>msg. pt = Fail msg
        then Status j = MigrationStatusRunning \<and> Status (job s') = MigrationStatusFailed \<and>
             mc_metrics (step k p mc) =
               (mc_metrics mc)\<lparr>FailedMigrations := FailedMigrations (mc_metrics mc) + 1\<rparr>
        else if pt = Complete
        then Status j = MigrationStatusRunning \<and> Status (job s') = MigrationStatusCompleted \<and>
             TotalMigrations (mc_metrics (step k p mc)) = TotalMigrations (mc_metrics mc) + 1 \<and>
             SuccessfulMigrations (mc_metrics (step k p mc)) = SuccessfulMigrations (mc_metrics mc) + 1 \<and>
             FailedMigrations (mc_metrics (step k p mc)) = FailedMigrations (mc_metrics mc) \<and>
             (\<exists>d. Duration (Details (job s')) = Some d \<and>
                AverageDuration (mc_metrics (step k p mc)) =
                  (if 0 <s SuccessfulMigrations (mc_metrics (step k p mc))
                   then div64 (AverageDuration (mc_metrics mc) *
                                 (SuccessfulMigrations (mc_metrics (step k p mc)) - 1) + d)
                          (SuccessfulMigrations (mc_metrics (step k p mc)))
                   else AverageDuration (mc_metrics mc)))
        else mc_metrics (step k p mc) = mc_metrics mc \<and> (terminal (Status (job s')) \<longleftrightarrow> pt = Done)"
  proof (cases pt rule: point_cases)
    case 1
    with a l' show ?thesis
      by (auto simp: m updateJobStatus_def terminal_def)
  next
    case 2
    with a l show ?thesis
      using life_status(2)[OF l] by (auto simp: m)
  next
    case 3
    from a 3 have s': "s' = completeMigration ?s" by simp
    from life_status(1)[OF l] 3 have r: "Status j = MigrationStatusRunning" by simp
    from inv have e: "SuccessfulMigrations (mc_metrics mc) = TotalMigrations (mc_metrics mc)"
      by simp
    show ?thesis
      by (simp add: m 3 r s' completeMigration_fields e)
  next
    case (4 msg)
    from a 4 have s': "s' = failMigration msg ?s" by simp
    from life_status(1)[OF l] 4 have r: "Status j = MigrationStatusRunning" by simp
    show ?thesis
      by (simp add: m 4 r s' failMigration_fields)
  next
    case (5 pvc)
    from advance_middle[OF 5 a] obtain evs where e: "extends ?s s' evs" by blast
    from advance_point(2)[OF a] 5 have "pt' \<noteq> Done" by auto
    with life_status(2)[OF l'] have "\<not> terminal (Status (job s'))" by simp
    with e 5 show ?thesis by (auto simp: m extends_def)
  qed
  show ?thesis
    by (intro conjI exI[of _ "job s'"]) (rule inv inv' o main)+
qed


theorem average_counts_successful_only_witness:
  "reachable overlapping \<and>
   (\<exists>j. objects overlapping 1 = Some j \<and> Status j = MigrationStatusRunning) \<and>
   goroutines overlapping 1 = Some (Complete, 1700000032008000400) \<and>
   map_option Status (objects overlapping 2) = Some MigrationStatusCompleted \<and>
   TotalMigrations (mc_metrics overlapping) = 1 \<and>
   FailedMigrations (mc_metrics overlapping) = 1 \<and>
   AverageDuration (mc_metrics overlapping) = 32007000300 \<and>
   map_option Status (objects (step cluster 1 overlapping) 1) = Some MigrationStatusCompleted \<and>
   Option.bind (objects (step cluster 1 overlapping) 1) (\<lambda>j. Duration (Details j)) =
     Some 32008000100 \<and>
   TotalMigrations (mc_metrics (step cluster 1 overlapping)) = 2 \<and>
   SuccessfulMigrations (mc_metrics (step cluster 1 overlapping)) = 2 \<and>
   FailedMigrations (mc_metrics (step cluster 1 overlapping)) = 1 \<and>
   AverageDuration (mc_metrics (step cluster 1 overlapping)) =
     div64 (32007000300 * (2 - 1) + 32008000100) 2 \<and>
   div64 (32007000300 * (2 - 1) + 32008000100) 2 = 32007500200"
proof -
  obtain j where o: "objects overlapping 1 = Some j"
    and j: "Status j = MigrationStatusRunning"
    using overlapping_fields(2) by auto
  have d: "div64 (32007000300 * (2 - 1) + 32008000100) 2 = 32007500200"
    by (simp add: div64_def)
  have d': "div64 64015000400 2 = 32007500200"
    by (simp add: div64_def)
  from average_counts_successful_only[OF reachable_overlapping o overlapping_fields(4),
      of cluster] last_step
  show ?thesis
    by (auto simp: reachable_overlapping o j overlapping_fields word_sless_alt d d'
        simp del: One_nat_def)
qed


text \<open>
  C10. Whenever a job completes and the sampling of the original pod in step 1 had
  failed, the original sample recorded is the zero sample, there is an optimized sample,
  measured or estimated, and both savings stored by the completed transition are the
  result of a division by zero: NaN or an infinity, not a finite number. Nothing guards
  the division and the savings are not left as they were.
\<close>

theorem zero_sample_savings:
  assumes "Status (job (executeMigration k s)) = MigrationStatusCompleted"
    and "find (is_call CallGetPodMetrics) (new_events s (executeMigration k s)) =
           Some (Invoke CallGetPodMetrics t False)"
  shows "OriginalResources (details (executeMigration k s)) =
           Some \<lparr>CPUUsage = Finite False 0, MemoryUsage = 0, Timestamp = t\<rparr> \<and>
         OptimizedResources (details (executeMigration k s)) \<noteq> None \<and>
         \<not> is_finite (CPUSavings (metrics (executeMigration k s))) \<and>
         \<not> is_finite (MemorySavings (metrics (executeMigration k s)))"
proof -
  let ?s0 = "updateJobStatus MigrationStatusRunning s"
  from executeMigration_samples[OF assms(1)] obtain s1 s6 evs where
    c: "captureContainerStates k ?s0 = (Inr (), s1)"
    and fin: "executeMigration k s = completeMigration s6"
    and o: "OriginalResources (details s6) = OriginalResources (details s1)"
    and p: "OriginalResources (details s1) \<noteq> None \<longrightarrow> OptimizedResources (details s6) \<noteq> None"
    and tr: "trace s6 = trace s1 @ evs"
    by blast
  from captureContainerStates_sample[OF c] obtain t1 t2 t' ok sample where
    e: "trace s1 = trace ?s0 @ [Invoke CallGetPod t1 True,
          Invoke CallGetPodContainerStates t2 True, Invoke CallGetPodMetrics t' ok]"
    and q: "OriginalResources (details s1) = Some sample"
    and z: "\<not> ok \<longrightarrow> sample = \<lparr>CPUUsage = Finite False 0, MemoryUsage = 0, Timestamp = t'\<rparr>"
    by blast
  have "new_events s (executeMigration k s) =
      WriteStatus MigrationStatusRunning # Invoke CallGetPod t1 True #
      Invoke CallGetPodContainerStates t2 True # Invoke CallGetPodMetrics t' ok #
      evs @ [WriteStatus MigrationStatusCompleted,
             WriteEnd (clock s6) (Sub (clock s6) (StartTime (job s6)))]"
    by (simp add: new_events_def fin trace_completeMigration tr e updateJobStatus_def)
  with assms(2) have "t' = t" "\<not> ok" by simp_all
  with z q have orig: "OriginalResources (details s1) =
      Some \<lparr>CPUUsage = Finite False 0, MemoryUsage = 0, Timestamp = t\<rparr>"
    by simp
  with p obtain opt where opt: "OptimizedResources (details s6) = Some opt" by auto
  from orig o have orig6: "OriginalResources (details s6) =
      Some \<lparr>CPUUsage = Finite False 0, MemoryUsage = 0, Timestamp = t\<rparr>"
    by simp
  have m: "CPUSavings (metrics (completeMigration s6)) =
        fst (savings \<lparr>CPUUsage = Finite False 0, MemoryUsage = 0, Timestamp = t\<rparr> opt)"
      "MemorySavings (metrics (completeMigration s6)) =
        snd (savings \<lparr>CPUUsage = Finite False 0, MemoryUsage = 0, Timestamp = t\<rparr> opt)"
    using orig6 opt by (simp_all add: completeMigration_def details_def Let_def)
  show ?thesis
    unfolding fin
    by (simp add: trace_completeMigration orig6 opt m savings_def float64_const_100
        float64_of_int64_0 division_by_zero del: fmul.simps fdiv.simps fsub.simps)
qed

theorem zero_sample_savings_witness:
  "Status (job (executeMigration unmetered state1)) = MigrationStatusCompleted \<and>
   find (is_call CallGetPodMetrics) (new_events state1 (executeMigration unmetered state1)) =
     Some (Invoke CallGetPodMetrics 1700000000003000200 False) \<and>
   OriginalResources (details (executeMigration unmetered state1)) =
     Some \<lparr>CPUUsage = Finite False 0, MemoryUsage = 0, Timestamp = 1700000000003000200\<rparr> \<and>
   CPUSavings (metrics (executeMigration unmetered state1)) = Infinity True \<and>
   MemorySavings (metrics (executeMigration unmetered state1)) = Infinity True \<and>
   \<not> is_finite (CPUSavings (metrics (executeMigration unmetered state1)))"
proof -
  have f: "find (is_call CallGetPodMetrics)
      (new_events state1 (executeMigration unmetered state1)) =
     Some (Invoke CallGetPodMetrics 1700000000003000200 False)"
    by (simp add: unmetered_run(2))
  from zero_sample_savings[OF unmetered_run(1) f] f unmetered_run(1,3,4) show ?thesis
    by simp
qed


end
